theory Spec2Isabelle
  imports Complex_Main "HOL-Library.AList" "HOL-Library.Multiset"
begin

section \<open>Conventions of the embedding\<close>

text \<open>
  The Go sources are \<^verbatim>\<open>pkg/analyzer/engine.go\<close> (the recommendation engine)
  and \<^verbatim>\<open>internal/controller/podrightsizing_controller.go\<close> (the reconciler).

  \<^item> A \<^verbatim>\<open>float64\<close> is modelled as an exact \<^typ>\<open>real\<close>: rounding, NaN and the
    infinities are outside the model. Go's \<^verbatim>\<open>int\<close> and \<^verbatim>\<open>int64\<close> are
    \<^typ>\<open>int\<close>; the conversion \<^verbatim>\<open>int(x)\<close> of a float truncates towards zero
    (its result for values outside the 64-bit range is implementation-specific in Go and is
    not modelled).
  \<^item> A function returning \<^verbatim>\<open>(T, error)\<close> returns \<open>error + T\<close>, with \<open>Inl\<close> the
    error; a \<^verbatim>\<open>nil\<close> pointer result with a \<^verbatim>\<open>nil\<close> error is \<open>Inr None\<close>.
    \<open>NotFound\<close>, \<open>Conflict\<close> and \<open>ApiError\<close> are the errors of the cluster API, with
    their messages; \<open>Wrapped\<close> is \<^verbatim>\<open>fmt.Errorf("...: %w", err)\<close>.
  \<^item> Log calls have no effect on results and are left out.
\<close>

datatype error =
    NoPodMetrics
  | InsufficientCPUData nat int
  | InsufficientMemoryData nat int
  | NotFound string
  | Conflict string
  | ApiError string
  | Wrapped string error
  | TooManyTargetPods nat
  | TooManyUpdatedPods int
  | InvalidWorkloadKey string
  | NoMetricsFound string

definition go_int :: "real \<Rightarrow> int" where
  "go_int x = (if 0 \<le> x then \<lfloor>x\<rfloor> else \<lceil>x\<rceil>)"

text \<open>Decimal printing of an integer, as the verb \<^verbatim>\<open>%d\<close> of \<^verbatim>\<open>fmt.Sprintf\<close> does.\<close>

fun string_of_nat :: "nat \<Rightarrow> string" where
  "string_of_nat n =
     (if n < 10 then [char_of (48 + n)]
      else string_of_nat (n div 10) @ [char_of (48 + n mod 10)])"

declare string_of_nat.simps [simp del]

definition sprint_int :: "int \<Rightarrow> string" where
  "sprint_int i = (if i < 0 then ''-'' @ string_of_nat (nat (- i)) else string_of_nat (nat i))"

text \<open>The message of an error, \<^verbatim>\<open>err.Error()\<close>.\<close>

fun Error :: "error \<Rightarrow> string" where
  "Error NoPodMetrics = ''no pod metrics provided''"
| "Error (InsufficientCPUData n m) =
     ''insufficient CPU data points: '' @ sprint_int (int n) @ '' < '' @ sprint_int m"
| "Error (InsufficientMemoryData n m) =
     ''insufficient memory data points: '' @ sprint_int (int n) @ '' < '' @ sprint_int m"
| "Error (NotFound s) = s"
| "Error (Conflict s) = s"
| "Error (ApiError s) = s"
| "Error (Wrapped s e) = s @ '': '' @ Error e"
| "Error (TooManyTargetPods n) =
     ''too many target pods: '' @ sprint_int (int n) @ '' exceeds int32 limit''"
| "Error (TooManyUpdatedPods n) =
     ''too many updated pods: '' @ sprint_int n @ '' exceeds int32 limit''"
| "Error (InvalidWorkloadKey k) = ''invalid workload key: '' @ k"
| "Error (NoMetricsFound k) = ''no metrics found for workload '' @ k"

fun IsNotFound :: "error \<Rightarrow> bool" where
  "IsNotFound (NotFound s) = True"
| "IsNotFound e = False"

section \<open>Data model\<close>

subsection \<open>Quantities and resource lists (k8s.io/apimachinery, k8s.io/api)\<close>

datatype Format = DecimalSI | BinarySI

text \<open>
  A \<^verbatim>\<open>resource.Quantity\<close> holds an integer amount and a decimal scale:
  \<open>Quantity v s f\<close> stands for \<open>v * 10 ^ s\<close>, printed in format \<open>f\<close>.
\<close>

datatype Quantity = Quantity (q_value: int) (q_scale: int) (q_format: Format)

definition NewMilliQuantity :: "int \<Rightarrow> Format \<Rightarrow> Quantity" where
  "NewMilliQuantity v f = Quantity v (- 3) f"

definition NewQuantity :: "int \<Rightarrow> Format \<Rightarrow> Quantity" where
  "NewQuantity v f = Quantity v 0 f"

definition AsApproximateFloat64 :: "Quantity \<Rightarrow> real" where
  "AsApproximateFloat64 q =
     (if 0 \<le> q_scale q then real_of_int (q_value q) * 10 ^ nat (q_scale q)
      else real_of_int (q_value q) / 10 ^ nat (- q_scale q))"

text \<open>
  \<^verbatim>\<open>Quantity.Add\<close>: a zero argument leaves the receiver's amount and scale as
  they are, a zero receiver takes the argument's amount, scale and format, and otherwise
  the amounts are added on the finer of the two scales in the receiver's format.
\<close>

definition Add :: "Quantity \<Rightarrow> Quantity \<Rightarrow> Quantity" where
  "Add q y =
     (if q_value y = 0
      then Quantity (q_value q) (q_scale q) (if q_value q = 0 then q_format y else q_format q)
      else if q_value q = 0 then y
      else
        let s = min (q_scale q) (q_scale y)
        in Quantity (q_value q * 10 ^ nat (q_scale q - s) + q_value y * 10 ^ nat (q_scale y - s)) s
             (q_format q))"

text \<open>\<^verbatim>\<open>Quantity.Equal\<close> compares the amounts, not the formats.\<close>

definition Equal :: "Quantity \<Rightarrow> Quantity \<Rightarrow> bool" where
  "Equal a b \<longleftrightarrow> AsApproximateFloat64 a = AsApproximateFloat64 b"

type_synonym ResourceName = string

definition ResourceCPU :: ResourceName where
  "ResourceCPU = ''cpu''"

definition ResourceMemory :: ResourceName where
  "ResourceMemory = ''memory''"

text \<open>
  A \<^verbatim>\<open>corev1.ResourceList\<close> is a Go map from resource names to quantities: an
  association list, read with \<^const>\<open>map_of\<close> and written with \<^const>\<open>AList.update\<close>.
\<close>

type_synonym ResourceList = "(ResourceName \<times> Quantity) list"

record ResourceRequirements =
  Requests :: ResourceList
  Limits :: ResourceList

subsection \<open>Metrics (pkg/metrics/types.go)\<close>

text \<open>The time stamps of the metrics records are never read by the engine; they are integers here.\<close>

record ResourceUsage =
  Timestamp :: int
  Value :: real
  Unit :: string

record PodMetrics =
  PodName :: string
  Namespace :: string
  CPUUsageHistory :: "ResourceUsage list"
  MemUsageHistory :: "ResourceUsage list"

record WorkloadMetrics =
  WorkloadName :: string
  WorkloadType :: string
  wm_Namespace :: string
  Pods :: "PodMetrics list"

subsection \<open>Thresholds and recommendations (api/v1alpha1)\<close>

record ResourceThresholds =
  CPUUtilizationPercentile :: int
  MemoryUtilizationPercentile :: int
  MinCPU :: "Quantity option"
  MaxCPU :: "Quantity option"
  MinMemory :: "Quantity option"
  MaxMemory :: "Quantity option"
  SafetyMargin :: int
  MinChangeThreshold :: int

record PodReference =
  ref_Name :: string
  ref_Namespace :: string
  ref_WorkloadType :: string
  ref_WorkloadName :: string

record PodRecommendation =
  PodReference :: PodReference
  CurrentResources :: ResourceRequirements
  RecommendedResources :: ResourceRequirements
  Reason :: string
  Confidence :: int
  Applied :: bool

section \<open>The recommendation engine (pkg/analyzer/engine.go)\<close>

record RecommendationEngine =
  DefaultSafetyMargin :: int
  DefaultConfidenceThreshold :: int
  MinDataPoints :: int
  CPURequestMultiplier :: real
  MemoryRequestMultiplier :: real

definition NewRecommendationEngine :: RecommendationEngine where
  "NewRecommendationEngine =
     \<lparr> DefaultSafetyMargin = 20,
       DefaultConfidenceThreshold = 70,
       MinDataPoints = 10,
       CPURequestMultiplier = 0.8,
       MemoryRequestMultiplier = 0.9 \<rparr>"

record ResourceRecommendation =
  rr_Request :: "Quantity option"
  rr_Limit :: "Quantity option"
  rr_Percentile :: real
  rr_Confidence :: int
  rr_DataPoints :: int
  rr_Reason :: string

definition calculatePercentile :: "real list \<Rightarrow> real \<Rightarrow> real" where
  "calculatePercentile sortedValues percentile =
     (if length sortedValues = 0 then 0
      else if percentile \<le> 0 then sortedValues ! 0
      else if percentile \<ge> 100 then sortedValues ! (length sortedValues - 1)
      else
        let index = (percentile / 100) * real (length sortedValues - 1);
            lower = go_int (real_of_int \<lfloor>index\<rfloor>);
            upper = go_int (real_of_int \<lceil>index\<rceil>)
        in if lower = upper then sortedValues ! nat lower
           else
             let weight = index - real_of_int lower
             in sortedValues ! nat lower * (1 - weight) + sortedValues ! nat upper * weight)"

definition calculateMean :: "real list \<Rightarrow> real" where
  "calculateMean values =
     (if length values = 0 then 0
      else foldl (\<lambda>sum v. sum + v) 0 values / real (length values))"

definition calculateStandardDeviation :: "real list \<Rightarrow> real \<Rightarrow> real" where
  "calculateStandardDeviation values mean =
     (if length values < 2 then 0
      else
        let sumSquaredDiff = foldl (\<lambda>s v. s + (v - mean) * (v - mean)) 0 values;
            variance = sumSquaredDiff / real (length values - 1)
        in sqrt variance)"

definition calculateConfidence :: "real list \<Rightarrow> real \<Rightarrow> int" where
  "calculateConfidence values percentileValue =
     (if length values < 2 then 50
      else
        let mean = calculateMean values;
            stdDev = calculateStandardDeviation values mean;
            cv = (if mean > 0 then stdDev / mean else 0);
            confidence =
              (if cv > 0.5 then 30 + go_int (20 * (1 - min (cv - 0.5) 0.5 / 0.5))
               else if cv > 0.3 then 70 + go_int (25 * (1 - (cv - 0.3) / 0.2))
               else if cv > 0.1 then 95 + go_int (5 * (1 - (cv - 0.1) / 0.2))
               else 100);
            dataPointBoost = min (real (length values) / 100) 0.1
        in go_int (min (real_of_int confidence * (1 + dataPointBoost)) 100))"

definition analyzeCPUUsage ::
  "RecommendationEngine \<Rightarrow> ResourceUsage list \<Rightarrow> ResourceThresholds
     \<Rightarrow> error + (ResourceRecommendation \<times> int)" where
  "analyzeCPUUsage r cpuHistory thresholds =
     (if int (length cpuHistory) < MinDataPoints r
      then Inl (InsufficientCPUData (length cpuHistory) (MinDataPoints r))
      else
        let values = sort (map Value cpuHistory);
            percentile = (if CPUUtilizationPercentile thresholds > 0
                          then CPUUtilizationPercentile thresholds else 95);
            percentileValue = calculatePercentile values (real_of_int percentile);
            safetyMargin = (if SafetyMargin thresholds > 0
                            then SafetyMargin thresholds else DefaultSafetyMargin r);
            recommendedLimit = percentileValue * (1 + real_of_int safetyMargin / 100);
            recommendedLimit =
              (case MinCPU thresholds of
                 None \<Rightarrow> recommendedLimit
               | Some q \<Rightarrow>
                   (let minCPU = AsApproximateFloat64 q
                    in if recommendedLimit < minCPU then minCPU else recommendedLimit));
            recommendedLimit =
              (case MaxCPU thresholds of
                 None \<Rightarrow> recommendedLimit
               | Some q \<Rightarrow>
                   (let maxCPU = AsApproximateFloat64 q
                    in if recommendedLimit > maxCPU then maxCPU else recommendedLimit));
            confidence = calculateConfidence values percentileValue;
            limitQuantity = NewMilliQuantity (go_int (recommendedLimit * 1000)) DecimalSI
        in Inr (\<lparr> rr_Request = None,
                   rr_Limit = Some limitQuantity,
                   rr_Percentile = percentileValue,
                   rr_Confidence = confidence,
                   rr_DataPoints = int (length cpuHistory),
                   rr_Reason = ''Based on '' @ sprint_int percentile @ ''th percentile of ''
                               @ sprint_int (int (length cpuHistory)) @ '' data points'' \<rparr>,
                 confidence))"

definition analyzeMemoryUsage ::
  "RecommendationEngine \<Rightarrow> ResourceUsage list \<Rightarrow> ResourceThresholds
     \<Rightarrow> error + (ResourceRecommendation \<times> int)" where
  "analyzeMemoryUsage r memoryHistory thresholds =
     (if int (length memoryHistory) < MinDataPoints r
      then Inl (InsufficientMemoryData (length memoryHistory) (MinDataPoints r))
      else
        let values = sort (map Value memoryHistory);
            percentile = (if MemoryUtilizationPercentile thresholds > 0
                          then MemoryUtilizationPercentile thresholds else 95);
            percentileValue = calculatePercentile values (real_of_int percentile);
            safetyMargin = (if SafetyMargin thresholds > 0
                            then SafetyMargin thresholds else DefaultSafetyMargin r);
            recommendedLimit = percentileValue * (1 + real_of_int safetyMargin / 100);
            recommendedLimit =
              (case MinMemory thresholds of
                 None \<Rightarrow> recommendedLimit
               | Some q \<Rightarrow>
                   (let minMemory = AsApproximateFloat64 q
                    in if recommendedLimit < minMemory then minMemory else recommendedLimit));
            recommendedLimit =
              (case MaxMemory thresholds of
                 None \<Rightarrow> recommendedLimit
               | Some q \<Rightarrow>
                   (let maxMemory = AsApproximateFloat64 q
                    in if recommendedLimit > maxMemory then maxMemory else recommendedLimit));
            confidence = calculateConfidence values percentileValue;
            limitQuantity = NewQuantity (go_int recommendedLimit) BinarySI
        in Inr (\<lparr> rr_Request = None,
                   rr_Limit = Some limitQuantity,
                   rr_Percentile = percentileValue,
                   rr_Confidence = confidence,
                   rr_DataPoints = int (length memoryHistory),
                   rr_Reason = ''Based on '' @ sprint_int percentile @ ''th percentile of ''
                               @ sprint_int (int (length memoryHistory)) @ '' data points'' \<rparr>,
                 confidence))"

text \<open>
  \<^verbatim>\<open>buildReasonString\<close> receives the two per-resource results as pointers; both are
  non-nil at its only call site, and \<open>None\<close> stands for a nil pointer.
\<close>

definition buildReasonString ::
  "RecommendationEngine \<Rightarrow> ResourceRecommendation option \<Rightarrow> ResourceRecommendation option
     \<Rightarrow> ResourceThresholds \<Rightarrow> string" where
  "buildReasonString r cpuRec memRec thresholds =
     (let reasons = [];
          reasons = (case cpuRec of None \<Rightarrow> reasons
                     | Some c \<Rightarrow> reasons @ [''CPU: '' @ rr_Reason c]);
          reasons = (case memRec of None \<Rightarrow> reasons
                     | Some m \<Rightarrow> reasons @ [''Memory: '' @ rr_Reason m]);
          safetyMargin = (if SafetyMargin thresholds > 0
                          then SafetyMargin thresholds else DefaultSafetyMargin r);
          reasonStr = ''Recommendations based on historical usage analysis. '';
          reasonStr =
            (if length reasons > 0
             then (let s = reasonStr @ reasons ! 0 @ ''. ''
                   in if length reasons > 1 then s @ reasons ! 1 @ ''. '' else s)
             else reasonStr)
      in reasonStr @ ''Applied '' @ sprint_int safetyMargin @ ''% safety margin.'')"

definition generatePodRecommendation ::
  "RecommendationEngine \<Rightarrow> PodMetrics \<Rightarrow> ResourceThresholds
     \<Rightarrow> error + PodRecommendation option" where
  "generatePodRecommendation r podMetrics thresholds =
     (case analyzeCPUUsage r (CPUUsageHistory podMetrics) thresholds of
        Inl err \<Rightarrow> Inl err
      | Inr (cpuRec, cpuConfidence) \<Rightarrow>
     (case analyzeMemoryUsage r (MemUsageHistory podMetrics) thresholds of
        Inl err \<Rightarrow> Inl err
      | Inr (memoryRec, memoryConfidence) \<Rightarrow>
     (let overallConfidence =
            go_int (min (real_of_int cpuConfidence) (real_of_int memoryConfidence))
      in if overallConfidence < DefaultConfidenceThreshold r then Inr None
         else
           let requests = []; limits = [];
               (requests, limits) =
                 (case rr_Limit cpuRec of
                    None \<Rightarrow> (requests, limits)
                  | Some cpuLimit \<Rightarrow>
                      (let limitValue = AsApproximateFloat64 cpuLimit;
                           requestValue = limitValue * CPURequestMultiplier r
                       in (AList.update ResourceCPU
                             (NewMilliQuantity (go_int (requestValue * 1000)) DecimalSI) requests,
                           AList.update ResourceCPU cpuLimit limits)));
               (requests, limits) =
                 (case rr_Limit memoryRec of
                    None \<Rightarrow> (requests, limits)
                  | Some memoryLimit \<Rightarrow>
                      (let limitValue = AsApproximateFloat64 memoryLimit;
                           requestValue = limitValue * MemoryRequestMultiplier r
                       in (AList.update ResourceMemory
                             (NewQuantity (go_int requestValue) BinarySI) requests,
                           AList.update ResourceMemory memoryLimit limits)))
           in Inr (Some
                \<lparr> PodReference =
                    \<lparr> ref_Name = PodName podMetrics,
                      ref_Namespace = Namespace podMetrics,
                      ref_WorkloadType = '''',
                      ref_WorkloadName = '''' \<rparr>,
                  CurrentResources = \<lparr> Requests = [], Limits = [] \<rparr>,
                  RecommendedResources = \<lparr> Requests = requests, Limits = limits \<rparr>,
                  Reason = buildReasonString r (Some cpuRec) (Some memoryRec) thresholds,
                  Confidence = overallConfidence,
                  Applied = False \<rparr>))))"

text \<open>The loop of \<^verbatim>\<open>GenerateRecommendations\<close> over the pods, appending to the slice.\<close>

fun GenerateRecommendations_loop ::
  "RecommendationEngine \<Rightarrow> PodMetrics list \<Rightarrow> ResourceThresholds
     \<Rightarrow> PodRecommendation list \<Rightarrow> PodRecommendation list" where
  "GenerateRecommendations_loop r [] thresholds recommendations = recommendations"
| "GenerateRecommendations_loop r (podMetrics # rest) thresholds recommendations =
     (case generatePodRecommendation r podMetrics thresholds of
        Inl err \<Rightarrow> GenerateRecommendations_loop r rest thresholds recommendations
      | Inr None \<Rightarrow> GenerateRecommendations_loop r rest thresholds recommendations
      | Inr (Some recommendation) \<Rightarrow>
          GenerateRecommendations_loop r rest thresholds (recommendations @ [recommendation]))"

definition GenerateRecommendations ::
  "RecommendationEngine \<Rightarrow> WorkloadMetrics \<Rightarrow> ResourceThresholds
     \<Rightarrow> error + PodRecommendation list" where
  "GenerateRecommendations r workloadMetrics thresholds =
     (if length (Pods workloadMetrics) = 0 then Inl NoPodMetrics
      else Inr (GenerateRecommendations_loop r (Pods workloadMetrics) thresholds []))"



section \<open>The reconciler (internal/controller/podrightsizing_controller.go)\<close>

subsection \<open>Cluster objects\<close>

datatype PodPhase = PodPending | PodRunning | PodSucceeded | PodFailed | PodUnknown

record OwnerReference =
  Kind :: string
  or_Name :: string

record Container =
  c_Name :: string
  Resources :: ResourceRequirements

record Pod =
  pod_Name :: string
  pod_Namespace :: string
  pod_Labels :: "(string \<times> string) list"
  OwnerReferences :: "OwnerReference list"
  pod_Phase :: PodPhase
  Containers :: "Container list"

record ReplicaSet =
  rs_Name :: string
  rs_Namespace :: string
  rs_OwnerReferences :: "OwnerReference list"

record NamespaceObject =
  ns_Name :: string
  ns_Labels :: "(string \<times> string) list"

text \<open>A Deployment, StatefulSet or DaemonSet: its kind, key and the containers of its pod template.\<close>

record Workload =
  wl_Kind :: string
  wl_Namespace :: string
  wl_Name :: string
  wl_Containers :: "Container list"

subsection \<open>The configuration object (api/v1alpha1)\<close>

record LabelSelectorRequirement =
  Key :: string
  Operator :: string
  Values :: "string list"

record LabelSelector =
  MatchLabels :: "(string \<times> string) list"
  MatchExpressions :: "LabelSelectorRequirement list"

record TargetSpec =
  target_Namespace :: string
  LabelSelector :: "LabelSelector option"
  NamespaceSelector :: "LabelSelector option"
  ExcludeNamespaces :: "string list"
  IncludeWorkloadTypes :: "string list"

type_synonym UpdateStrategy = string

definition UpdateStrategyManual :: UpdateStrategy where
  "UpdateStrategyManual = ''manual''"

record UpdatePolicy =
  Strategy :: UpdateStrategy

record PodRightSizingSpec =
  Target :: TargetSpec
  AnalysisWindow :: string
  UpdatePolicy :: UpdatePolicy
  Thresholds :: ResourceThresholds
  DryRun :: bool

text \<open>The phase is a string type in Go; \<open>PhaseNone\<close> is its zero value, the empty string.\<close>

datatype RightSizingPhase =
    PhaseNone | PhaseInitializing | PhaseAnalyzing | PhaseRecommending
  | PhaseUpdating | PhaseCompleted | PhaseError

record PodRightSizingStatus =
  Phase :: RightSizingPhase
  Message :: string
  LastAnalysisTime :: "int option"
  LastUpdateTime :: "int option"
  TargetedPods :: int
  UpdatedPods :: int
  Recommendations :: "PodRecommendation list"

record PodRightSizing =
  prs_Name :: string
  prs_Namespace :: string
  Spec :: PodRightSizingSpec
  Status :: PodRightSizingStatus

subsection \<open>The cluster and the reconciler's collaborators\<close>

text \<open>
  The state behind \<^verbatim>\<open>client.Client\<close>: the objects of the cluster, and two counters
  that record how often the reconciler fetched a configuration object and how often it
  tried to write a status. Times are nanoseconds, as \<^verbatim>\<open>time.Duration\<close>.
\<close>

record Cluster =
  cl_Objects :: "string \<times> string \<Rightarrow> PodRightSizing option"
  cl_Pods :: "Pod list"
  cl_Namespaces :: "NamespaceObject list"
  cl_ReplicaSets :: "ReplicaSet list"
  cl_Workloads :: "Workload list"
  cl_Gets :: nat
  cl_StatusWrites :: nat

type_synonym Selector = "(string \<times> string) list \<Rightarrow> bool"

text \<open>
  The reconciler holds the metrics client and the engine. What the code calls outside this
  repository is a field as well, so that every theorem holds for each behaviour of it:
  the selector conversion of apimachinery, \<^verbatim>\<open>time.ParseDuration\<close>, the clock, the
  iteration order of a Go map over its keys, and the faults of the cluster API (whether a
  read fails, and whether the \<open>n\<close>-th status write of the pass is rejected, as a write
  conflict is).
\<close>

record Reconciler =
  GetWorkloadMetrics :: "string \<Rightarrow> string \<Rightarrow> string \<Rightarrow> int \<Rightarrow> error + WorkloadMetrics"
  RecommendEngine :: RecommendationEngine
  LabelSelectorAsSelector :: "LabelSelector \<Rightarrow> error + Selector"
  ParseDuration :: "string \<Rightarrow> error + int"
  Now :: int
  MapOrder :: "string list \<Rightarrow> string list"
  GetFault :: "error option"
  ListNamespacesFault :: "error option"
  ListPodsFault :: "string \<Rightarrow> error option"
  StatusUpdateFault :: "nat \<Rightarrow> error option"
  WorkloadUpdateFault :: "string \<Rightarrow> string \<Rightarrow> string \<Rightarrow> error option"

definition Hour :: int where
  "Hour = 3600000000000"

definition Minute :: int where
  "Minute = 60000000000"

definition MaxInt32 :: int where
  "MaxInt32 = 2147483647"

text \<open>\<^verbatim>\<open>for k, v := range m\<close> over a Go map held as an association list.\<close>

definition go_range :: "Reconciler \<Rightarrow> (string \<times> 'a) list \<Rightarrow> (string \<times> 'a) list" where
  "go_range r m =
     List.map_filter (\<lambda>k. map_option (Pair k) (map_of m k)) (MapOrder r (map fst m))"

text \<open>\<^verbatim>\<open>m[key] = append(m[key], x)\<close>.\<close>

definition map_append :: "string \<Rightarrow> 'a \<Rightarrow> (string \<times> 'a list) list \<Rightarrow> (string \<times> 'a list) list" where
  "map_append key x m =
     (case map_of m key of
        None \<Rightarrow> m @ [(key, [x])]
      | Some xs \<Rightarrow> AList.update key (xs @ [x]) m)"

text \<open>\<^verbatim>\<open>strings.SplitN(s, "/", n)\<close>.\<close>

fun SplitN :: "string \<Rightarrow> nat \<Rightarrow> string list" where
  "SplitN s 0 = []"
| "SplitN s (Suc 0) = [s]"
| "SplitN s (Suc (Suc n)) =
     (if CHR ''/'' \<in> set s
      then takeWhile (\<lambda>c. c \<noteq> CHR ''/'') s # SplitN (tl (dropWhile (\<lambda>c. c \<noteq> CHR ''/'') s)) (Suc n)
      else [s])"

subsection \<open>Calls of the cluster API\<close>

definition Get :: "Reconciler \<Rightarrow> Cluster \<Rightarrow> string \<times> string \<Rightarrow> (error + PodRightSizing) \<times> Cluster" where
  "Get r cl key =
     (let cl = cl\<lparr>cl_Gets := cl_Gets cl + 1\<rparr>
      in case GetFault r of
           Some err \<Rightarrow> (Inl err, cl)
         | None \<Rightarrow>
             (case cl_Objects cl key of
                None \<Rightarrow> (Inl (NotFound ''not found''), cl)
              | Some prs \<Rightarrow> (Inr prs, cl)))"

text \<open>
  \<^verbatim>\<open>r.Status().Update(ctx, prs)\<close>: one write attempt. The API server either rejects it
  (a conflict when the object changed since it was read) or replaces the stored status.
\<close>

definition StatusUpdate :: "Reconciler \<Rightarrow> Cluster \<Rightarrow> PodRightSizing \<Rightarrow> error option \<times> Cluster" where
  "StatusUpdate r cl prs =
     (let n = cl_StatusWrites cl;
          cl = cl\<lparr>cl_StatusWrites := n + 1\<rparr>;
          key = (prs_Namespace prs, prs_Name prs)
      in case StatusUpdateFault r n of
           Some err \<Rightarrow> (Some err, cl)
         | None \<Rightarrow>
             (case cl_Objects cl key of
                None \<Rightarrow> (Some (NotFound ''not found''), cl)
              | Some stored \<Rightarrow>
                  (None, cl\<lparr>cl_Objects := (cl_Objects cl)(key \<mapsto> stored\<lparr>Status := Status prs\<rparr>)\<rparr>)))"

definition ListNamespaces :: "Reconciler \<Rightarrow> Cluster \<Rightarrow> Selector \<Rightarrow> error + NamespaceObject list" where
  "ListNamespaces r cl selector =
     (case ListNamespacesFault r of
        Some err \<Rightarrow> Inl err
      | None \<Rightarrow> Inr (filter (\<lambda>ns. selector (ns_Labels ns)) (cl_Namespaces cl)))"

text \<open>
  Listing pods with \<^verbatim>\<open>MatchingLabelsSelector\<close> and, when a namespace is given,
  \<^verbatim>\<open>InNamespace\<close>: without it the pods of all namespaces are listed.
\<close>

definition ListPods :: "Reconciler \<Rightarrow> Cluster \<Rightarrow> Selector \<Rightarrow> string option \<Rightarrow> error + Pod list" where
  "ListPods r cl selector inNamespace =
     (case ListPodsFault r (case inNamespace of None \<Rightarrow> '''' | Some ns \<Rightarrow> ns) of
        Some err \<Rightarrow> Inl err
      | None \<Rightarrow>
          Inr (filter (\<lambda>pod. selector (pod_Labels pod) \<and>
                        (case inNamespace of None \<Rightarrow> True | Some ns \<Rightarrow> pod_Namespace pod = ns))
                 (cl_Pods cl)))"

definition GetReplicaSet :: "Cluster \<Rightarrow> string \<Rightarrow> string \<Rightarrow> error + ReplicaSet" where
  "GetReplicaSet cl namespace name =
     (case find (\<lambda>rs. rs_Namespace rs = namespace \<and> rs_Name rs = name) (cl_ReplicaSets cl) of
        None \<Rightarrow> Inl (NotFound ''not found'')
      | Some rs \<Rightarrow> Inr rs)"

definition GetWorkload :: "Cluster \<Rightarrow> string \<Rightarrow> string \<Rightarrow> string \<Rightarrow> error + Workload" where
  "GetWorkload cl kind namespace name =
     (case find (\<lambda>wl. wl_Kind wl = kind \<and> wl_Namespace wl = namespace \<and> wl_Name wl = name)
             (cl_Workloads cl) of
        None \<Rightarrow> Inl (NotFound ''not found'')
      | Some wl \<Rightarrow> Inr wl)"

definition UpdateWorkload :: "Reconciler \<Rightarrow> Cluster \<Rightarrow> Workload \<Rightarrow> error option \<times> Cluster" where
  "UpdateWorkload r cl wl =
     (case WorkloadUpdateFault r (wl_Kind wl) (wl_Namespace wl) (wl_Name wl) of
        Some err \<Rightarrow> (Some err, cl)
      | None \<Rightarrow>
          (None, cl\<lparr>cl_Workloads :=
             map (\<lambda>old. if wl_Kind old = wl_Kind wl \<and> wl_Namespace old = wl_Namespace wl \<and>
                           wl_Name old = wl_Name wl then wl else old) (cl_Workloads cl)\<rparr>))"

subsection \<open>Scheduling\<close>

definition shouldRunAnalysis :: "Reconciler \<Rightarrow> PodRightSizing \<Rightarrow> bool" where
  "shouldRunAnalysis r prs =
     (case LastAnalysisTime (Status prs) of
        None \<Rightarrow> True
      | Some lastAnalysis \<Rightarrow>
          (let interval = 24 * Hour;
               interval =
                 (if AnalysisWindow (Spec prs) \<noteq> ''''
                  then (case ParseDuration r (AnalysisWindow (Spec prs)) of
                          Inr d \<Rightarrow> (if d < 24 * Hour then Hour else d div 24)
                        | Inl err \<Rightarrow> interval)
                  else interval)
           in Now r - lastAnalysis \<ge> interval))"

text \<open>A \<^verbatim>\<open>ctrl.Result\<close> is its \<^verbatim>\<open>RequeueAfter\<close>, with 0 for the empty result.\<close>

definition requeueAfter :: "Reconciler \<Rightarrow> PodRightSizing \<Rightarrow> int" where
  "requeueAfter r prs =
     (let interval = Hour;
          interval =
            (if AnalysisWindow (Spec prs) \<noteq> ''''
             then (case ParseDuration r (AnalysisWindow (Spec prs)) of
                     Inr d \<Rightarrow> (if d \<ge> 24 * Hour then 24 * Hour else interval)
                   | Inl err \<Rightarrow> interval)
             else interval)
      in interval)"

subsection \<open>Discovery of the target pods\<close>

fun isNamespaceExcluded :: "string \<Rightarrow> string list \<Rightarrow> bool" where
  "isNamespaceExcluded namespace [] = False"
| "isNamespaceExcluded namespace (excludeNs # rest) =
     (if namespace = excludeNs then True else isNamespaceExcluded namespace rest)"

fun getWorkloadType_owners :: "OwnerReference list \<Rightarrow> string" where
  "getWorkloadType_owners [] = ''Pod''"
| "getWorkloadType_owners (owner # rest) =
     (if Kind owner = ''ReplicaSet'' then ''Deployment''
      else if Kind owner = ''StatefulSet'' then ''StatefulSet''
      else if Kind owner = ''DaemonSet'' then ''DaemonSet''
      else if Kind owner = ''Job'' then ''Job''
      else if Kind owner = ''CronJob'' then ''CronJob''
      else getWorkloadType_owners rest)"

definition getWorkloadType :: "Pod \<Rightarrow> string" where
  "getWorkloadType pod = getWorkloadType_owners (OwnerReferences pod)"

definition shouldIncludePod :: "Pod \<Rightarrow> PodRightSizing \<Rightarrow> bool" where
  "shouldIncludePod pod prs =
     (if pod_Phase pod \<noteq> PodRunning then False
      else if length (OwnerReferences pod) = 0 then False
      else if length (IncludeWorkloadTypes (Target (Spec prs))) > 0 \<and>
              \<not> list_ex (\<lambda>allowedType. getWorkloadType pod = allowedType)
                  (IncludeWorkloadTypes (Target (Spec prs)))
      then False
      else list_ex (\<lambda>container. length (Requests (Resources container)) > 0 \<or>
                                length (Limits (Resources container)) > 0)
             (Containers pod))"

text \<open>The loop of \<^verbatim>\<open>discoverTargetPods\<close> over the target namespaces.\<close>

fun discoverTargetPods_loop ::
  "Reconciler \<Rightarrow> Cluster \<Rightarrow> PodRightSizing \<Rightarrow> Selector \<Rightarrow> string list \<Rightarrow> Pod list
     \<Rightarrow> error + Pod list" where
  "discoverTargetPods_loop r cl prs selector [] pods = Inr pods"
| "discoverTargetPods_loop r cl prs selector (ns # rest) pods =
     (if isNamespaceExcluded ns (ExcludeNamespaces (Target (Spec prs)))
      then discoverTargetPods_loop r cl prs selector rest pods
      else
        (case ListPods r cl selector (if ns \<noteq> '''' then Some ns else None) of
           Inl err \<Rightarrow> Inl (Wrapped (''failed to list pods in namespace '' @ ns) err)
         | Inr items \<Rightarrow>
             discoverTargetPods_loop r cl prs selector rest
               (pods @ filter (\<lambda>pod. shouldIncludePod pod prs) items)))"

definition discoverTargetPods :: "Reconciler \<Rightarrow> Cluster \<Rightarrow> PodRightSizing \<Rightarrow> error + Pod list" where
  "discoverTargetPods r cl prs =
     (case (case LabelSelector (Target (Spec prs)) of
              None \<Rightarrow> Inr (\<lambda>labels. True)
            | Some ls \<Rightarrow>
                (case LabelSelectorAsSelector r ls of
                   Inl err \<Rightarrow> Inl (Wrapped ''invalid label selector'' err)
                 | Inr selector \<Rightarrow> Inr selector)) of
        Inl err \<Rightarrow> Inl err
      | Inr selector \<Rightarrow>
          (case (case NamespaceSelector (Target (Spec prs)) of
                   Some nsel \<Rightarrow>
                     (case LabelSelectorAsSelector r nsel of
                        Inl err \<Rightarrow> Inl (Wrapped ''invalid namespace selector'' err)
                      | Inr namespaceSelector \<Rightarrow>
                          (case ListNamespaces r cl namespaceSelector of
                             Inl err \<Rightarrow> Inl (Wrapped ''failed to list namespaces'' err)
                           | Inr items \<Rightarrow> Inr (map ns_Name items)))
                 | None \<Rightarrow>
                     (if target_Namespace (Target (Spec prs)) \<noteq> ''''
                      then Inr [target_Namespace (Target (Spec prs))]
                      else Inr [''''])) of
             Inl err \<Rightarrow> Inl err
           | Inr namespaces \<Rightarrow> discoverTargetPods_loop r cl prs selector namespaces []))"

subsection \<open>Grouping by workload\<close>

fun getWorkloadName_owners :: "Cluster \<Rightarrow> Pod \<Rightarrow> OwnerReference list \<Rightarrow> string" where
  "getWorkloadName_owners cl pod [] = pod_Name pod"
| "getWorkloadName_owners cl pod (owner # rest) =
     (if Kind owner = ''ReplicaSet''
      then (case GetReplicaSet cl (pod_Namespace pod) (or_Name owner) of
              Inr rs \<Rightarrow>
                (case find (\<lambda>rsOwner. Kind rsOwner = ''Deployment'') (rs_OwnerReferences rs) of
                   Some rsOwner \<Rightarrow> or_Name rsOwner
                 | None \<Rightarrow> getWorkloadName_owners cl pod rest)
            | Inl err \<Rightarrow> getWorkloadName_owners cl pod rest)
      else or_Name owner)"

definition getWorkloadName :: "Cluster \<Rightarrow> Pod \<Rightarrow> string" where
  "getWorkloadName cl pod = getWorkloadName_owners cl pod (OwnerReferences pod)"

definition workloadKey :: "string \<Rightarrow> string \<Rightarrow> string \<Rightarrow> string" where
  "workloadKey namespace workloadType workloadName =
     namespace @ ''/'' @ workloadType @ ''/'' @ workloadName"

fun groupPodsByWorkload_loop ::
  "Cluster \<Rightarrow> Pod list \<Rightarrow> (string \<times> Pod list) list \<Rightarrow> (string \<times> Pod list) list" where
  "groupPodsByWorkload_loop cl [] groups = groups"
| "groupPodsByWorkload_loop cl (pod # rest) groups =
     (let workloadName = getWorkloadName cl pod;
          workloadType = getWorkloadType pod;
          key = workloadKey (pod_Namespace pod) workloadType workloadName
      in groupPodsByWorkload_loop cl rest (map_append key pod groups))"

definition groupPodsByWorkload :: "Cluster \<Rightarrow> Pod list \<Rightarrow> (string \<times> Pod list) list" where
  "groupPodsByWorkload cl pods = groupPodsByWorkload_loop cl pods []"

definition splitWorkloadKey :: "string \<Rightarrow> string list" where
  "splitWorkloadKey key = SplitN key 3"

subsection \<open>Recommendations of one workload\<close>

definition addResourceToTotal :: "ResourceList \<Rightarrow> ResourceList \<Rightarrow> ResourceName \<Rightarrow> ResourceList" where
  "addResourceToTotal totals source resourceType =
     (case map_of source resourceType of
        None \<Rightarrow> totals
      | Some quantity \<Rightarrow>
          (case map_of totals resourceType of
             Some existing \<Rightarrow> AList.update resourceType (Add existing quantity) totals
           | None \<Rightarrow> AList.update resourceType quantity totals))"

fun getCurrentResources_loop ::
  "Container list \<Rightarrow> ResourceList \<Rightarrow> ResourceList \<Rightarrow> ResourceRequirements" where
  "getCurrentResources_loop [] totalRequests totalLimits =
     \<lparr> Requests = totalRequests, Limits = totalLimits \<rparr>"
| "getCurrentResources_loop (container # rest) totalRequests totalLimits =
     (let totalRequests =
            addResourceToTotal totalRequests (Requests (Resources container)) ResourceCPU;
          totalRequests =
            addResourceToTotal totalRequests (Requests (Resources container)) ResourceMemory;
          totalLimits =
            addResourceToTotal totalLimits (Limits (Resources container)) ResourceCPU;
          totalLimits =
            addResourceToTotal totalLimits (Limits (Resources container)) ResourceMemory
      in getCurrentResources_loop rest totalRequests totalLimits)"

definition getCurrentResources :: "Pod \<Rightarrow> ResourceRequirements" where
  "getCurrentResources pod = getCurrentResources_loop (Containers pod) [] []"

text \<open>The loop that fills in the workload and the current resources of each recommendation.\<close>

definition enhanceRecommendation ::
  "string \<Rightarrow> string \<Rightarrow> Pod list \<Rightarrow> PodRecommendation \<Rightarrow> PodRecommendation" where
  "enhanceRecommendation workloadType workloadName pods rec =
     (let rec = rec\<lparr>PodReference :=
                  (PodReference rec)\<lparr>ref_WorkloadType := workloadType,
                                      ref_WorkloadName := workloadName\<rparr>\<rparr>
      in case find (\<lambda>pod. pod_Name pod = ref_Name (PodReference rec)) pods of
           Some pod \<Rightarrow> rec\<lparr>CurrentResources := getCurrentResources pod\<rparr>
         | None \<Rightarrow> rec)"

definition generateWorkloadRecommendations ::
  "Reconciler \<Rightarrow> PodRightSizing \<Rightarrow> string \<Rightarrow> Pod list \<Rightarrow> error + PodRecommendation list" where
  "generateWorkloadRecommendations r prs key pods =
     (let parts = splitWorkloadKey key
      in if length parts \<noteq> 3 then Inl (InvalidWorkloadKey key)
         else
           let namespace = parts ! 0; workloadType = parts ! 1; workloadName = parts ! 2;
               window = (case ParseDuration r (AnalysisWindow (Spec prs)) of
                           Inr d \<Rightarrow> d
                         | Inl err \<Rightarrow> 7 * 24 * Hour)
           in case GetWorkloadMetrics r namespace workloadName workloadType window of
                Inl err \<Rightarrow> Inl err
              | Inr workloadMetrics \<Rightarrow>
                  if length (Pods workloadMetrics) = 0 then Inl (NoMetricsFound key)
                  else
                    (case GenerateRecommendations (RecommendEngine r) workloadMetrics
                            (Thresholds (Spec prs)) of
                       Inl err \<Rightarrow> Inl err
                     | Inr recommendations \<Rightarrow>
                         Inr (map (enhanceRecommendation workloadType workloadName pods)
                                recommendations)))"

subsection \<open>Applying recommendations\<close>

definition resourcesEqual :: "ResourceRequirements \<Rightarrow> ResourceRequirements \<Rightarrow> bool" where
  "resourcesEqual a b =
     (if length (Requests a) \<noteq> length (Requests b) then False
      else if \<not> list_all (\<lambda>(resource, quantity).
                   case map_of (Requests b) resource of
                     None \<Rightarrow> False
                   | Some bQuantity \<Rightarrow> Equal quantity bQuantity) (Requests a)
      then False
      else if length (Limits a) \<noteq> length (Limits b) then False
      else list_all (\<lambda>(resource, quantity).
                   case map_of (Limits b) resource of
                     None \<Rightarrow> False
                   | Some bQuantity \<Rightarrow> Equal quantity bQuantity) (Limits a))"

fun updateContainerResources ::
  "Container list \<Rightarrow> ResourceRequirements \<Rightarrow> Container list \<times> bool" where
  "updateContainerResources [] resources = ([], False)"
| "updateContainerResources (container # rest) resources =
     (case updateContainerResources rest resources of
        (rest', updated) \<Rightarrow>
          (if \<not> resourcesEqual (Resources container) resources
           then (container\<lparr>Resources := resources\<rparr> # rest', True)
           else (container # rest', updated)))"

text \<open>
  \<^verbatim>\<open>updateDeployment\<close>, \<^verbatim>\<open>updateStatefulSet\<close> and \<^verbatim>\<open>updateDaemonSet\<close> fetch
  the workload, replace the resources of its containers and write it back when something
  changed; they differ in the kind fetched and in the texts of their errors.
\<close>

definition updateWorkloadResources ::
  "Reconciler \<Rightarrow> Cluster \<Rightarrow> Workload \<Rightarrow> ResourceRequirements \<Rightarrow> string \<Rightarrow> string
     \<Rightarrow> (error + int) \<times> Cluster" where
  "updateWorkloadResources r cl obj resources workloadType name =
     (case updateContainerResources (wl_Containers obj) resources of
        (containers, updated) \<Rightarrow>
          if \<not> updated then (Inr 0, cl)
          else
            (case UpdateWorkload r cl (obj\<lparr>wl_Containers := containers\<rparr>) of
               (Some err, cl) \<Rightarrow>
                 (Inl (Wrapped (''failed to update '' @ workloadType @ '' '' @ name) err), cl)
             | (None, cl) \<Rightarrow> (Inr 1, cl)))"

definition updateDeployment ::
  "Reconciler \<Rightarrow> Cluster \<Rightarrow> string \<Rightarrow> string \<Rightarrow> ResourceRequirements \<Rightarrow> (error + int) \<times> Cluster" where
  "updateDeployment r cl namespace name resources =
     (case GetWorkload cl ''Deployment'' namespace name of
        Inl err \<Rightarrow> (Inl (Wrapped (''failed to get deployment '' @ namespace @ ''/'' @ name) err), cl)
      | Inr deployment \<Rightarrow>
          (case updateContainerResources (wl_Containers deployment) resources of
             (containers, updated) \<Rightarrow>
               if \<not> updated then (Inr 0, cl)
               else
                 (case UpdateWorkload r cl (deployment\<lparr>wl_Containers := containers\<rparr>) of
                    (Some err, cl) \<Rightarrow>
                      (Inl (Wrapped (''failed to update deployment '' @ namespace @ ''/'' @ name)
                              err), cl)
                  | (None, cl) \<Rightarrow> (Inr 1, cl))))"

definition updateStatefulSet ::
  "Reconciler \<Rightarrow> Cluster \<Rightarrow> string \<Rightarrow> string \<Rightarrow> ResourceRequirements \<Rightarrow> (error + int) \<times> Cluster" where
  "updateStatefulSet r cl namespace name resources =
     (case GetWorkload cl ''StatefulSet'' namespace name of
        Inl err \<Rightarrow> (Inl (Wrapped (''failed to get statefulset '' @ namespace @ ''/'' @ name) err), cl)
      | Inr statefulSet \<Rightarrow> updateWorkloadResources r cl statefulSet resources ''statefulset'' name)"

definition updateDaemonSet ::
  "Reconciler \<Rightarrow> Cluster \<Rightarrow> string \<Rightarrow> string \<Rightarrow> ResourceRequirements \<Rightarrow> (error + int) \<times> Cluster" where
  "updateDaemonSet r cl namespace name resources =
     (case GetWorkload cl ''DaemonSet'' namespace name of
        Inl err \<Rightarrow> (Inl (Wrapped (''failed to get daemonset '' @ namespace @ ''/'' @ name) err), cl)
      | Inr daemonSet \<Rightarrow> updateWorkloadResources r cl daemonSet resources ''daemonset'' name)"

definition calculateAverageRecommendation :: "PodRecommendation list \<Rightarrow> ResourceRequirements" where
  "calculateAverageRecommendation recommendations =
     (if length recommendations = 0 then \<lparr> Requests = [], Limits = [] \<rparr>
      else RecommendedResources (recommendations ! 0))"

definition applyWorkloadRecommendations ::
  "Reconciler \<Rightarrow> Cluster \<Rightarrow> PodRightSizing \<Rightarrow> string \<Rightarrow> PodRecommendation list
     \<Rightarrow> (error + int) \<times> Cluster" where
  "applyWorkloadRecommendations r cl prs key recommendations =
     (if Strategy (UpdatePolicy (Spec prs)) = UpdateStrategyManual then (Inr 0, cl)
      else if length recommendations = 0 then (Inr 0, cl)
      else
        let parts = splitWorkloadKey key
        in if length parts \<noteq> 3 then (Inl (InvalidWorkloadKey key), cl)
           else
             let namespace = parts ! 0; workloadType = parts ! 1; workloadName = parts ! 2;
                 avgRecommendation = calculateAverageRecommendation recommendations
             in if workloadType = ''Deployment''
                then updateDeployment r cl namespace workloadName avgRecommendation
                else if workloadType = ''StatefulSet''
                then updateStatefulSet r cl namespace workloadName avgRecommendation
                else if workloadType = ''DaemonSet''
                then updateDaemonSet r cl namespace workloadName avgRecommendation
                else (Inr 0, cl))"

fun groupRecommendations ::
  "PodRecommendation list \<Rightarrow> (string \<times> PodRecommendation list) list
     \<Rightarrow> (string \<times> PodRecommendation list) list" where
  "groupRecommendations [] workloadRecommendations = workloadRecommendations"
| "groupRecommendations (rec # rest) workloadRecommendations =
     (let key = workloadKey (ref_Namespace (PodReference rec)) (ref_WorkloadType (PodReference rec))
                  (ref_WorkloadName (PodReference rec))
      in groupRecommendations rest (map_append key rec workloadRecommendations))"

fun applyRecommendations_loop ::
  "Reconciler \<Rightarrow> Cluster \<Rightarrow> PodRightSizing \<Rightarrow> (string \<times> PodRecommendation list) list \<Rightarrow> int
     \<Rightarrow> int \<times> Cluster" where
  "applyRecommendations_loop r cl prs [] updatedCount = (updatedCount, cl)"
| "applyRecommendations_loop r cl prs ((key, workloadRecs) # rest) updatedCount =
     (case applyWorkloadRecommendations r cl prs key workloadRecs of
        (Inl err, cl) \<Rightarrow> applyRecommendations_loop r cl prs rest updatedCount
      | (Inr updated, cl) \<Rightarrow> applyRecommendations_loop r cl prs rest (updatedCount + updated))"

definition applyRecommendations ::
  "Reconciler \<Rightarrow> Cluster \<Rightarrow> PodRightSizing \<Rightarrow> PodRecommendation list \<Rightarrow> int \<times> Cluster" where
  "applyRecommendations r cl prs recommendations =
     applyRecommendations_loop r cl prs
       (go_range r (groupRecommendations recommendations [])) 0"

subsection \<open>The reconcile pass\<close>

definition updatePhase ::
  "Reconciler \<Rightarrow> Cluster \<Rightarrow> PodRightSizing \<Rightarrow> RightSizingPhase \<Rightarrow> string
     \<Rightarrow> error option \<times> PodRightSizing \<times> Cluster" where
  "updatePhase r cl prs phase message =
     (let prs = prs\<lparr>Status := (Status prs)\<lparr>Phase := phase, Message := message\<rparr>\<rparr>
      in case StatusUpdate r cl prs of (err, cl) \<Rightarrow> (err, prs, cl))"

text \<open>The loop of \<^verbatim>\<open>Reconcile\<close> over the workload groups.\<close>

fun Reconcile_loop ::
  "Reconciler \<Rightarrow> PodRightSizing \<Rightarrow> (string \<times> Pod list) list \<Rightarrow> PodRecommendation list
     \<Rightarrow> PodRecommendation list" where
  "Reconcile_loop r prs [] allRecommendations = allRecommendations"
| "Reconcile_loop r prs ((key, pods) # rest) allRecommendations =
     (case generateWorkloadRecommendations r prs key pods of
        Inl err \<Rightarrow> Reconcile_loop r prs rest allRecommendations
      | Inr recommendations \<Rightarrow>
          Reconcile_loop r prs rest (allRecommendations @ recommendations))"

text \<open>
  \<^verbatim>\<open>Reconcile\<close> returns the requeue delay and the error, and the cluster it leaves.
\<close>

definition Reconcile ::
  "Reconciler \<Rightarrow> Cluster \<Rightarrow> string \<times> string \<Rightarrow> (int \<times> error option) \<times> Cluster" where
  "Reconcile r cl req =
     (case Get r cl req of
        (Inl err, cl) \<Rightarrow> if IsNotFound err then ((0, None), cl) else ((0, Some err), cl)
      | (Inr podRightSizing, cl) \<Rightarrow>
     if \<not> shouldRunAnalysis r podRightSizing then ((requeueAfter r podRightSizing, None), cl)
     else
     (case updatePhase r cl podRightSizing PhaseAnalyzing ''Starting resource analysis'' of
        (Some err, podRightSizing, cl) \<Rightarrow> ((0, Some err), cl)
      | (None, podRightSizing, cl) \<Rightarrow>
     (case discoverTargetPods r cl podRightSizing of
        Inl err \<Rightarrow>
          (case updatePhase r cl podRightSizing PhaseError
                  (''Failed to discover pods: '' @ Error err) of
             (updateErr, podRightSizing, cl) \<Rightarrow> ((5 * Minute, Some err), cl))
      | Inr targetPods \<Rightarrow>
     if int (length targetPods) > MaxInt32
     then ((0, Some (TooManyTargetPods (length targetPods))), cl)
     else
     let podRightSizing = podRightSizing\<lparr>Status :=
           (Status podRightSizing)\<lparr>TargetedPods := int (length targetPods)\<rparr>\<rparr>
     in
     if length targetPods = 0
     then (case updatePhase r cl podRightSizing PhaseCompleted ''No matching pods found'' of
             (Some err, podRightSizing, cl) \<Rightarrow> ((0, Some err), cl)
           | (None, podRightSizing, cl) \<Rightarrow> ((requeueAfter r podRightSizing, None), cl))
     else
     let workloadGroups = groupPodsByWorkload cl targetPods
     in
     (case updatePhase r cl podRightSizing PhaseRecommending ''Generating recommendations'' of
        (Some err, podRightSizing, cl) \<Rightarrow> ((0, Some err), cl)
      | (None, podRightSizing, cl) \<Rightarrow>
     let allRecommendations = Reconcile_loop r podRightSizing (go_range r workloadGroups) [];
         podRightSizing = podRightSizing\<lparr>Status :=
           (Status podRightSizing)\<lparr>Recommendations := allRecommendations,
                                    LastAnalysisTime := Some (Now r)\<rparr>\<rparr>
     in
     (case (if \<not> DryRun (Spec podRightSizing)
            then
              (case updatePhase r cl podRightSizing PhaseUpdating ''Applying recommendations'' of
                 (Some err, podRightSizing, cl) \<Rightarrow> (Some err, podRightSizing, cl)
               | (None, podRightSizing, cl) \<Rightarrow>
                   (case applyRecommendations r cl podRightSizing allRecommendations of
                      (updatedCount, cl) \<Rightarrow>
                        if updatedCount > MaxInt32
                        then (Some (TooManyUpdatedPods updatedCount), podRightSizing, cl)
                        else (None,
                              podRightSizing\<lparr>Status :=
                                (Status podRightSizing)\<lparr>UpdatedPods := updatedCount,
                                                         LastUpdateTime := Some (Now r)\<rparr>\<rparr>,
                              cl)))
            else (None, podRightSizing, cl)) of
        (Some err, podRightSizing, cl) \<Rightarrow> ((0, Some err), cl)
      | (None, podRightSizing, cl) \<Rightarrow>
     let phase = PhaseCompleted;
         message = ''Analysis completed. Found '' @ sprint_int (int (length allRecommendations))
                   @ '' recommendations'';
         message = (if DryRun (Spec podRightSizing) then message @ '' (dry-run mode)''
                    else message)
     in
     (case updatePhase r cl podRightSizing phase message of
        (Some err, podRightSizing, cl) \<Rightarrow> ((0, Some err), cl)
      | (None, podRightSizing, cl) \<Rightarrow> ((requeueAfter r podRightSizing, None), cl)))))))"

text \<open>
  Two states of the cluster that differ at most in the workload objects: the configuration
  objects, the pods, the namespaces, the replica sets and the two counters are the same.
\<close>

definition same_but_workloads :: "Cluster \<Rightarrow> Cluster \<Rightarrow> bool" where
  "same_but_workloads cl cl' \<longleftrightarrow>
     cl_Objects cl' = cl_Objects cl \<and> cl_Pods cl' = cl_Pods cl \<and>
     cl_Namespaces cl' = cl_Namespaces cl \<and> cl_ReplicaSets cl' = cl_ReplicaSets cl \<and>
     cl_Gets cl' = cl_Gets cl \<and> cl_StatusWrites cl' = cl_StatusWrites cl"

section \<open>What the specification expects\<close>

text \<open>
  What the specification expects to be persisted after a pass (section 4.1, step 5): the
  recommendations of the workload groups whose generation did not fail, concatenated in the
  order in which the groups were processed; a failed group contributes nothing.
\<close>

definition successful_recommendations ::
  "Reconciler \<Rightarrow> PodRightSizing \<Rightarrow> (string \<times> Pod list) list \<Rightarrow> PodRecommendation list" where
  "successful_recommendations r prs groups =
     concat (map (\<lambda>(key, pods).
                    case generateWorkloadRecommendations r prs key pods of
                      Inl err \<Rightarrow> []
                    | Inr recommendations \<Rightarrow> recommendations) groups)"

section \<open>Concrete inputs\<close>

text \<open>
  Inputs on which the theorems below are evaluated: a usage sample with a given value, and
  the zero value of \<^verbatim>\<open>ResourceThresholds\<close> (nothing configured).
\<close>

definition usage_sample :: "real \<Rightarrow> ResourceUsage" where
  "usage_sample v = \<lparr> Timestamp = 0, Value = v, Unit = '''' \<rparr>"

definition zero_thresholds :: ResourceThresholds where
  "zero_thresholds =
     \<lparr> CPUUtilizationPercentile = 0, MemoryUtilizationPercentile = 0,
       MinCPU = None, MaxCPU = None, MinMemory = None, MaxMemory = None,
       SafetyMargin = 0, MinChangeThreshold = 0 \<rparr>"

definition pod_with_usage :: "string \<Rightarrow> real list \<Rightarrow> real list \<Rightarrow> PodMetrics" where
  "pod_with_usage name cpu mem =
     \<lparr> PodName = name, Namespace = ''default'',
       CPUUsageHistory = map usage_sample cpu, MemUsageHistory = map usage_sample mem \<rparr>"

definition workload_of :: "PodMetrics list \<Rightarrow> WorkloadMetrics" where
  "workload_of ps =
     \<lparr> WorkloadName = ''web'', WorkloadType = ''Deployment'', wm_Namespace = ''default'',
       Pods = ps \<rparr>"

text \<open>
  A pod whose CPU samples vary widely (mean 3, standard deviation 2) while its memory is
  constant, and a pod whose usage is constant.
\<close>

definition noisy_pod :: PodMetrics where
  "noisy_pod = pod_with_usage ''noisy'' [6, 0, 6, 0, 3, 3, 3, 3, 3, 3]
                 [5, 5, 5, 5, 5, 5, 5, 5, 5, 5]"

definition steady_pod :: PodMetrics where
  "steady_pod = pod_with_usage ''steady'' [1, 1, 1, 1, 1, 1, 1, 1, 1, 1]
                  [5, 5, 5, 5, 5, 5, 5, 5, 5, 5]"

text \<open>
  A pod with nine CPU samples and ten memory samples, and one with the two series
  exchanged.
\<close>

definition short_cpu_pod :: PodMetrics where
  "short_cpu_pod = pod_with_usage ''short-cpu'' [1, 1, 1, 1, 1, 1, 1, 1, 1]
                     [5, 5, 5, 5, 5, 5, 5, 5, 5, 5]"

definition short_mem_pod :: PodMetrics where
  "short_mem_pod = pod_with_usage ''short-mem'' [1, 1, 1, 1, 1, 1, 1, 1, 1, 1]
                     [5, 5, 5, 5, 5, 5, 5, 5, 5]"

text \<open>
  A small cluster: a pod of a DaemonSet in \<open>kube-system\<close> and a pod of a StatefulSet in
  \<open>default\<close>, both running and with resource requests; a reconciler whose collaborators
  never fail and that has metrics for no workload; and a configuration object that targets
  all namespaces and excludes \<open>kube-system\<close>.
\<close>

definition pod_of :: "string \<Rightarrow> string \<Rightarrow> string \<Rightarrow> string \<Rightarrow> Pod" where
  "pod_of namespace name ownerKind ownerName =
     \<lparr> pod_Name = name, pod_Namespace = namespace, pod_Labels = [],
       OwnerReferences = [\<lparr> Kind = ownerKind, or_Name = ownerName \<rparr>],
       pod_Phase = PodRunning,
       Containers =
         [\<lparr> c_Name = ''main'',
            Resources = \<lparr> Requests = [(ResourceCPU, NewMilliQuantity 100 DecimalSI)],
                          Limits = [] \<rparr> \<rparr>] \<rparr>"

definition system_pod :: Pod where
  "system_pod = pod_of ''kube-system'' ''proxy-1'' ''DaemonSet'' ''proxy''"

definition app_pod :: Pod where
  "app_pod = pod_of ''default'' ''db-0'' ''StatefulSet'' ''db''"

definition web_pod :: Pod where
  "web_pod = pod_of ''default'' ''steady'' ''StatefulSet'' ''web''"

definition policy_for :: "TargetSpec \<Rightarrow> bool \<Rightarrow> PodRightSizing" where
  "policy_for target dryRun =
     \<lparr> prs_Name = ''policy'', prs_Namespace = ''default'',
       Spec = \<lparr> Target = target, AnalysisWindow = '''',
                UpdatePolicy = \<lparr> Strategy = ''gradual'' \<rparr>,
                Thresholds = zero_thresholds, DryRun = dryRun \<rparr>,
       Status = \<lparr> Phase = PhaseNone, Message = '''', LastAnalysisTime = None,
                  LastUpdateTime = None, TargetedPods = 0, UpdatedPods = 0,
                  Recommendations = [] \<rparr> \<rparr>"

definition exclude_system_target :: TargetSpec where
  "exclude_system_target =
     \<lparr> target_Namespace = '''', LabelSelector = None, NamespaceSelector = None,
       ExcludeNamespaces = [''kube-system''], IncludeWorkloadTypes = [] \<rparr>"

definition default_namespace_target :: TargetSpec where
  "default_namespace_target =
     \<lparr> target_Namespace = ''default'', LabelSelector = None, NamespaceSelector = None,
       ExcludeNamespaces = [''kube-system''], IncludeWorkloadTypes = [] \<rparr>"

definition cluster_with :: "PodRightSizing \<Rightarrow> Pod list \<Rightarrow> Cluster" where
  "cluster_with prs pods =
     \<lparr> cl_Objects = [(prs_Namespace prs, prs_Name prs) \<mapsto> prs],
       cl_Pods = pods, cl_Namespaces = [], cl_ReplicaSets = [], cl_Workloads = [],
       cl_Gets = 0, cl_StatusWrites = 0 \<rparr>"

text \<open>
  The metrics provider of the examples knows the workload \<open>web\<close>, with the one pod
  \<^const>\<open>steady_pod\<close>, and fails for every other workload.
\<close>

definition web_only_metrics :: "string \<Rightarrow> string \<Rightarrow> string \<Rightarrow> int \<Rightarrow> error + WorkloadMetrics" where
  "web_only_metrics namespace workloadName workloadType window =
     (if workloadName = ''web'' then Inr (workload_of [steady_pod])
      else Inl (ApiError ''metrics unavailable''))"

definition reconciler_with :: "(nat \<Rightarrow> error option) \<Rightarrow> Reconciler" where
  "reconciler_with statusFault =
     \<lparr> GetWorkloadMetrics = web_only_metrics,
       RecommendEngine = NewRecommendationEngine,
       LabelSelectorAsSelector = (\<lambda>ls. Inr (\<lambda>labels. True)),
       ParseDuration = (\<lambda>s. Inl (ApiError ''invalid duration'')),
       Now = 0,
       MapOrder = (\<lambda>keys. keys),
       GetFault = None,
       ListNamespacesFault = None,
       ListPodsFault = (\<lambda>ns. None),
       StatusUpdateFault = statusFault,
       WorkloadUpdateFault = (\<lambda>kind namespace name. None) \<rparr>"

definition conflict_on_first_write :: "nat \<Rightarrow> error option" where
  "conflict_on_first_write n =
     (if n = 0 then Some (Conflict ''the object has been modified'') else None)"

section \<open>Properties of the recommendation engine\<close>

subsection \<open>Truncation and percentiles\<close>

lemma go_int_of_int: "go_int (real_of_int k) = k"
  by (simp add: go_int_def)





subsection \<open>Confidence\<close>

lemma go_int_range:
  assumes "0 \<le> x" "x \<le> real_of_int k"
  shows "0 \<le> go_int x \<and> go_int x \<le> k"
  using assms unfolding go_int_def by (simp add: floor_le_iff le_floor_iff)

lemma calculateConfidence_small: "length vs < 2 \<Longrightarrow> calculateConfidence vs pv = 50"
  by (simp add: calculateConfidence_def)

lemma calculateConfidence_range: "0 \<le> calculateConfidence vs pv \<and> calculateConfidence vs pv \<le> 100"
proof (cases "length vs < 2")
  case True
  then show ?thesis by (simp add: calculateConfidence_def)
next
  case False
  define cv where "cv = (if calculateMean vs > 0
       then calculateStandardDeviation vs (calculateMean vs) / calculateMean vs else 0)"
  define confidence :: int where "confidence =
      (if cv > 0.5 then 30 + go_int (20 * (1 - min (cv - 0.5) 0.5 / 0.5))
       else if cv > 0.3 then 70 + go_int (25 * (1 - (cv - 0.3) / 0.2))
       else if cv > 0.1 then 95 + go_int (5 * (1 - (cv - 0.1) / 0.2))
       else 100)"
  define boost where "boost = min (real (length vs) / 100) 0.1"
  have unf: "calculateConfidence vs pv = go_int (min (real_of_int confidence * (1 + boost)) 100)"
    using False
    by (simp add: calculateConfidence_def Let_def cv_def confidence_def boost_def)
  have c0: "0 \<le> confidence"
  proof -
    have 1: "cv > 0.5 \<Longrightarrow> 0 \<le> go_int (20 * (1 - min (cv - 0.5) 0.5 / 0.5))"
      by (intro go_int_range[THEN conjunct1, of _ 20]) (simp_all add: min_def)
    have 2: "cv > 0.3 \<Longrightarrow> \<not> cv > 0.5 \<Longrightarrow> 0 \<le> go_int (25 * (1 - (cv - 0.3) / 0.2))"
      by (intro go_int_range[THEN conjunct1, of _ 25]) simp_all
    have 3: "cv > 0.1 \<Longrightarrow> \<not> cv > 0.3 \<Longrightarrow> 0 \<le> go_int (5 * (1 - (cv - 0.1) / 0.2))"
      by (intro go_int_range[THEN conjunct1, of _ 5]) simp_all
    show ?thesis unfolding confidence_def using 1 2 3 by auto
  qed
  have b0: "0 \<le> boost" unfolding boost_def by simp
  have "0 \<le> real_of_int confidence * (1 + boost)" using c0 b0 by simp
  then have "0 \<le> min (real_of_int confidence * (1 + boost)) 100" by simp
  moreover have "min (real_of_int confidence * (1 + boost)) 100 \<le> real_of_int 100" by simp
  ultimately show ?thesis unfolding unf by (rule go_int_range)
qed


text \<open>
  C5. For every sample, of any length and with any values, \<^const>\<open>calculateConfidence\<close>
  returns an integer between 0 and 100, and exactly 50 on fewer than two points: whatever
  the coefficient of variation, the piecewise value with the sample-size boost, truncated
  and capped at 100, is never below 0 or above 100.
\<close>

theorem calculateConfidence_clamped:
  "0 \<le> calculateConfidence vs pv \<and> calculateConfidence vs pv \<le> 100 \<and>
   (length vs < 2 \<longrightarrow> calculateConfidence vs pv = 50)"
  using calculateConfidence_range[of vs pv] calculateConfidence_small[of vs pv]
  by simp

lemma confidence_1_1_1_5: "calculateConfidence [1, 1, 1, 5] pv = 31"
proof -
  have m: "calculateMean [1, 1, 1, 5] = 2"
    by (simp add: calculateMean_def)
  have sd: "calculateStandardDeviation [1, 1, 1, 5] 2 = 2"
    by (simp add: calculateStandardDeviation_def Let_def)
  show ?thesis
    by (simp add: calculateConfidence_def m sd Let_def go_int_def)
qed

theorem calculateConfidence_clamped_witness:
  "length [7 :: real] < 2 \<and> calculateConfidence [7] 7 = 50 \<and>
   calculateConfidence [1, 1, 1, 5] 5 = 31 \<and>
   0 \<le> calculateConfidence [1, 1, 1, 5] 5 \<and> calculateConfidence [1, 1, 1, 5] 5 \<le> 100"
  using calculateConfidence_clamped[of "[7]" 7] calculateConfidence_clamped[of "[1, 1, 1, 5]" 5]
  by (simp add: confidence_1_1_1_5)

subsection \<open>The loop over the pods of a workload\<close>

lemma GenerateRecommendations_loop_acc:
  "GenerateRecommendations_loop r ps th acc = acc @ GenerateRecommendations_loop r ps th []"
proof (induction ps arbitrary: acc)
  case Nil
  then show ?case by simp
next
  case (Cons p ps)
  show ?case
  proof (cases "generatePodRecommendation r p th")
    case (Inl e)
    then show ?thesis using Cons.IH[of acc] by simp
  next
    case (Inr o1)
    then show ?thesis
      using Cons.IH[of acc] Cons.IH[of "acc @ [the o1]"] Cons.IH[of "[the o1]"]
      by (cases o1) simp_all
  qed
qed

lemma GenerateRecommendations_loop_append:
  "GenerateRecommendations_loop r (ps @ qs) th acc =
     GenerateRecommendations_loop r ps th acc @ GenerateRecommendations_loop r qs th []"
proof (induction ps arbitrary: acc)
  case Nil
  then show ?case using GenerateRecommendations_loop_acc[of r qs th acc] by simp
next
  case (Cons p ps)
  then show ?case by (simp split: sum.splits option.splits)
qed

lemma GenerateRecommendations_loop_skip:
  assumes "generatePodRecommendation r pm th = Inl e \<or> generatePodRecommendation r pm th = Inr None"
  shows "GenerateRecommendations_loop r (ps @ pm # qs) th [] =
     GenerateRecommendations_loop r ps th [] @ GenerateRecommendations_loop r qs th []"
  using assms by (auto simp: GenerateRecommendations_loop_append[of r ps "pm # qs"])

lemma GenerateRecommendations_loop_all_fail:
  "\<forall>pm \<in> set ps. isl (generatePodRecommendation r pm th) \<Longrightarrow>
     GenerateRecommendations_loop r ps th acc = acc"
  by (induction ps arbitrary: acc) (auto simp: isl_def)

text \<open>
  C9. \<^const>\<open>GenerateRecommendations\<close> returns an error exactly when the workload
  metrics hold no pod (the error is \<^const>\<open>NoPodMetrics\<close>). With at least one pod it
  returns the recommendations collected by the loop and no error; pods whose analysis fails
  are skipped, so when every pod fails the result is the empty list with no error.
\<close>

theorem GenerateRecommendations_error_iff_no_pods:
  "(isl (GenerateRecommendations r wm th) \<longleftrightarrow> Pods wm = []) \<and>
   (Pods wm = [] \<longrightarrow> GenerateRecommendations r wm th = Inl NoPodMetrics) \<and>
   (Pods wm \<noteq> [] \<longrightarrow>
      GenerateRecommendations r wm th = Inr (GenerateRecommendations_loop r (Pods wm) th [])) \<and>
   (Pods wm \<noteq> [] \<and> (\<forall>pm \<in> set (Pods wm). isl (generatePodRecommendation r pm th)) \<longrightarrow>
      GenerateRecommendations r wm th = Inr [])"
  by (simp add: GenerateRecommendations_def GenerateRecommendations_loop_all_fail)

lemma gpr_no_samples:
  "generatePodRecommendation NewRecommendationEngine (pod_with_usage n [] []) zero_thresholds
     = Inl (InsufficientCPUData 0 10)"
  by (simp add: generatePodRecommendation_def analyzeCPUUsage_def NewRecommendationEngine_def
      pod_with_usage_def)

theorem GenerateRecommendations_error_iff_no_pods_witness:
  "Pods (workload_of [pod_with_usage ''a'' [] [], pod_with_usage ''b'' [] []]) \<noteq> [] \<and>
   isl (generatePodRecommendation NewRecommendationEngine (pod_with_usage ''a'' [] [])
          zero_thresholds) \<and>
   isl (generatePodRecommendation NewRecommendationEngine (pod_with_usage ''b'' [] [])
          zero_thresholds) \<and>
   GenerateRecommendations NewRecommendationEngine
     (workload_of [pod_with_usage ''a'' [] [], pod_with_usage ''b'' [] []]) zero_thresholds = Inr [] \<and>
   Pods (workload_of []) = [] \<and>
   GenerateRecommendations NewRecommendationEngine (workload_of []) zero_thresholds
     = Inl NoPodMetrics"
proof -
  have h: "Pods (workload_of [pod_with_usage ''a'' [] [], pod_with_usage ''b'' [] []]) \<noteq> []"
    "\<forall>pm \<in> set (Pods (workload_of [pod_with_usage ''a'' [] [], pod_with_usage ''b'' [] []])).
      isl (generatePodRecommendation NewRecommendationEngine pm zero_thresholds)"
    by (simp_all add: workload_of_def gpr_no_samples)
  have e: "Pods (workload_of []) = []" by (simp add: workload_of_def)
  have a: "GenerateRecommendations NewRecommendationEngine
     (workload_of [pod_with_usage ''a'' [] [], pod_with_usage ''b'' [] []]) zero_thresholds = Inr []"
    using h GenerateRecommendations_error_iff_no_pods[of NewRecommendationEngine
        "workload_of [pod_with_usage ''a'' [] [], pod_with_usage ''b'' [] []]" zero_thresholds]
    by blast
  have b: "GenerateRecommendations NewRecommendationEngine (workload_of []) zero_thresholds
     = Inl NoPodMetrics"
    using e GenerateRecommendations_error_iff_no_pods[of NewRecommendationEngine
        "workload_of []" zero_thresholds]
    by blast
  show ?thesis using h(1) e a b by (simp add: gpr_no_samples)
qed



lemma go_int_min_of_int: "go_int (min (real_of_int a) (real_of_int b)) = min a b"
  by (simp add: min_def go_int_of_int)

lemma generatePodRecommendation_cases:
  assumes c: "analyzeCPUUsage r (CPUUsageHistory pm) th = Inr (cpuRec, cc)"
    and m: "analyzeMemoryUsage r (MemUsageHistory pm) th = Inr (memRec, mc)"
  shows "(min cc mc < DefaultConfidenceThreshold r \<longrightarrow>
            generatePodRecommendation r pm th = Inr None) \<and>
         (\<not> min cc mc < DefaultConfidenceThreshold r \<longrightarrow>
            (\<exists>rec. generatePodRecommendation r pm th = Inr (Some rec) \<and>
                   Confidence rec = min cc mc))"
  unfolding generatePodRecommendation_def c m
  by (simp add: go_int_min_of_int Let_def split: prod.splits)

lemma generatePodRecommendation_confidence:
  assumes "generatePodRecommendation r pm th = Inr (Some rec)"
  shows "DefaultConfidenceThreshold r \<le> Confidence rec"
proof -
  obtain cpuRec cc where c: "analyzeCPUUsage r (CPUUsageHistory pm) th = Inr (cpuRec, cc)"
    using assms unfolding generatePodRecommendation_def
    by (cases "analyzeCPUUsage r (CPUUsageHistory pm) th") auto
  obtain memRec mc where m: "analyzeMemoryUsage r (MemUsageHistory pm) th = Inr (memRec, mc)"
    using assms unfolding generatePodRecommendation_def c
    by (cases "analyzeMemoryUsage r (MemUsageHistory pm) th") auto
  show ?thesis
    using generatePodRecommendation_cases[OF c m] assms by (cases "min cc mc < DefaultConfidenceThreshold r") auto
qed

lemma GenerateRecommendations_loop_confidence:
  assumes "\<forall>rec \<in> set acc. DefaultConfidenceThreshold r \<le> Confidence rec"
  shows "\<forall>rec \<in> set (GenerateRecommendations_loop r ps th acc).
           DefaultConfidenceThreshold r \<le> Confidence rec"
  using assms
proof (induction ps arbitrary: acc)
  case Nil
  then show ?case by simp
next
  case (Cons p ps)
  show ?case
  proof (cases "generatePodRecommendation r p th")
    case (Inl e)
    then show ?thesis using Cons by simp
  next
    case (Inr o1)
    show ?thesis
    proof (cases o1)
      case None
      then show ?thesis using Inr Cons by simp
    next
      case (Some rec)
      have "\<forall>x \<in> set (acc @ [rec]). DefaultConfidenceThreshold r \<le> Confidence x"
        using Cons.prems generatePodRecommendation_confidence[of r p th rec] Inr Some by auto
      from Cons.IH[OF this] show ?thesis using Inr Some by simp
    qed
  qed
qed

text \<open>
  C4. When both analyses of a pod succeed, the pod-level confidence is the minimum of the
  CPU and the memory confidence. Below the engine's threshold (70 by default)
  \<^const>\<open>generatePodRecommendation\<close> returns no recommendation and no error, and the
  pod contributes nothing to the workload's list; otherwise the recommendation carries that
  minimum as its confidence. No recommendation in any returned list has a confidence below
  the threshold.
\<close>

theorem confidence_gate_suppresses_pod:
  assumes c: "analyzeCPUUsage r (CPUUsageHistory pm) th = Inr (cpuRec, cc)"
    and m: "analyzeMemoryUsage r (MemUsageHistory pm) th = Inr (memRec, mc)"
  shows "(min cc mc < DefaultConfidenceThreshold r \<longrightarrow>
            generatePodRecommendation r pm th = Inr None \<and>
            GenerateRecommendations r (wm\<lparr>Pods := ps @ pm # qs\<rparr>) th =
              Inr (GenerateRecommendations_loop r ps th [] @ GenerateRecommendations_loop r qs th [])) \<and>
         (\<not> min cc mc < DefaultConfidenceThreshold r \<longrightarrow>
            (\<exists>rec. generatePodRecommendation r pm th = Inr (Some rec) \<and>
                   Confidence rec = min cc mc)) \<and>
         (\<forall>recs. GenerateRecommendations r wm th = Inr recs \<longrightarrow>
            (\<forall>rec \<in> set recs. DefaultConfidenceThreshold r \<le> Confidence rec)) \<and>
         DefaultConfidenceThreshold NewRecommendationEngine = 70"
proof -
  note g = generatePodRecommendation_cases[OF c m]
  have a: "min cc mc < DefaultConfidenceThreshold r \<longrightarrow>
            generatePodRecommendation r pm th = Inr None \<and>
            GenerateRecommendations r (wm\<lparr>Pods := ps @ pm # qs\<rparr>) th =
              Inr (GenerateRecommendations_loop r ps th [] @ GenerateRecommendations_loop r qs th [])"
    using g GenerateRecommendations_loop_skip[of r pm th _ ps qs]
    by (simp add: GenerateRecommendations_def)
  have b: "\<forall>recs. GenerateRecommendations r wm th = Inr recs \<longrightarrow>
            (\<forall>rec \<in> set recs. DefaultConfidenceThreshold r \<le> Confidence rec)"
    using GenerateRecommendations_loop_confidence[of "[]" r "Pods wm" th]
    by (auto simp: GenerateRecommendations_def split: if_splits)
  have d: "DefaultConfidenceThreshold NewRecommendationEngine = 70"
    by (simp add: NewRecommendationEngine_def)
  show ?thesis using a b d g by blast
qed


lemma confidence_noisy: "calculateConfidence [0, 0, 3, 3, 3, 3, 3, 3, 6, 6] pv = 47"
proof -
  have m: "calculateMean [0, 0, 3, 3, 3, 3, 3, 3, 6, 6] = 3"
    by (simp add: calculateMean_def)
  have sd: "calculateStandardDeviation [0, 0, 3, 3, 3, 3, 3, 3, 6, 6] 3 = 2"
    by (simp add: calculateStandardDeviation_def Let_def)
  show ?thesis
    by (simp add: calculateConfidence_def m sd Let_def go_int_def)
qed

lemma confidence_constant_5: "calculateConfidence [5, 5, 5, 5, 5, 5, 5, 5, 5, 5] pv = 100"
proof -
  have m: "calculateMean [5, 5, 5, 5, 5, 5, 5, 5, 5, 5] = 5"
    by (simp add: calculateMean_def)
  have sd: "calculateStandardDeviation [5, 5, 5, 5, 5, 5, 5, 5, 5, 5] 5 = 0"
    by (simp add: calculateStandardDeviation_def Let_def)
  show ?thesis
    by (simp add: calculateConfidence_def m sd Let_def go_int_def)
qed

lemma confidence_constant_1: "calculateConfidence [1, 1, 1, 1, 1, 1, 1, 1, 1, 1] pv = 100"
proof -
  have m: "calculateMean [1, 1, 1, 1, 1, 1, 1, 1, 1, 1] = 1"
    by (simp add: calculateMean_def)
  have sd: "calculateStandardDeviation [1, 1, 1, 1, 1, 1, 1, 1, 1, 1] 1 = 0"
    by (simp add: calculateStandardDeviation_def Let_def)
  show ?thesis
    by (simp add: calculateConfidence_def m sd Let_def go_int_def)
qed

lemma sort_noisy: "sort (map Value (map usage_sample [6, 0, 6, 0, 3, 3, 3, 3, 3, 3]))
   = [0, 0, 3, 3, 3, 3, 3, 3, 6, 6]"
  by (simp add: usage_sample_def)

lemma sort_constant_5: "sort (map Value (map usage_sample [5, 5, 5, 5, 5, 5, 5, 5, 5, 5]))
   = [5, 5, 5, 5, 5, 5, 5, 5, 5, 5]"
  by (simp add: usage_sample_def)

lemma sort_constant_1: "sort (map Value (map usage_sample [1, 1, 1, 1, 1, 1, 1, 1, 1, 1]))
   = [1, 1, 1, 1, 1, 1, 1, 1, 1, 1]"
  by (simp add: usage_sample_def)

lemma analyzeCPUUsage_ok:
  "\<not> int (length h) < MinDataPoints r \<Longrightarrow>
     \<not> isl (analyzeCPUUsage r h th) \<and>
     snd (projr (analyzeCPUUsage r h th)) = calculateConfidence (sort (map Value h))
        (calculatePercentile (sort (map Value h))
           (real_of_int (if CPUUtilizationPercentile th > 0 then CPUUtilizationPercentile th else 95)))"
  by (simp add: analyzeCPUUsage_def Let_def)

lemma analyzeMemoryUsage_ok:
  "\<not> int (length h) < MinDataPoints r \<Longrightarrow>
     \<not> isl (analyzeMemoryUsage r h th) \<and>
     snd (projr (analyzeMemoryUsage r h th)) = calculateConfidence (sort (map Value h))
        (calculatePercentile (sort (map Value h))
           (real_of_int (if MemoryUtilizationPercentile th > 0 then MemoryUtilizationPercentile th else 95)))"
  by (simp add: analyzeMemoryUsage_def Let_def)

lemma noisy_pod_analysis:
  "\<not> isl (analyzeCPUUsage NewRecommendationEngine (CPUUsageHistory noisy_pod) zero_thresholds)"
  "snd (projr (analyzeCPUUsage NewRecommendationEngine (CPUUsageHistory noisy_pod) zero_thresholds)) = 47"
  "\<not> isl (analyzeMemoryUsage NewRecommendationEngine (MemUsageHistory noisy_pod) zero_thresholds)"
  "snd (projr (analyzeMemoryUsage NewRecommendationEngine (MemUsageHistory noisy_pod) zero_thresholds)) = 100"
proof -
  have n: "\<not> int (length (CPUUsageHistory noisy_pod)) < MinDataPoints NewRecommendationEngine"
     "\<not> int (length (MemUsageHistory noisy_pod)) < MinDataPoints NewRecommendationEngine"
    by (simp_all add: noisy_pod_def pod_with_usage_def NewRecommendationEngine_def)
  have c: "CPUUsageHistory noisy_pod = map usage_sample [6, 0, 6, 0, 3, 3, 3, 3, 3, 3]"
    and m: "MemUsageHistory noisy_pod = map usage_sample [5, 5, 5, 5, 5, 5, 5, 5, 5, 5]"
    by (simp_all add: noisy_pod_def pod_with_usage_def)
  show "\<not> isl (analyzeCPUUsage NewRecommendationEngine (CPUUsageHistory noisy_pod) zero_thresholds)"
    using analyzeCPUUsage_ok[OF n(1)] by simp
  show "snd (projr (analyzeCPUUsage NewRecommendationEngine (CPUUsageHistory noisy_pod) zero_thresholds)) = 47"
    using analyzeCPUUsage_ok[OF n(1), of zero_thresholds]
    by (simp only: c sort_noisy confidence_noisy)
  show "\<not> isl (analyzeMemoryUsage NewRecommendationEngine (MemUsageHistory noisy_pod) zero_thresholds)"
    using analyzeMemoryUsage_ok[OF n(2)] by simp
  show "snd (projr (analyzeMemoryUsage NewRecommendationEngine (MemUsageHistory noisy_pod) zero_thresholds)) = 100"
    using analyzeMemoryUsage_ok[OF n(2), of zero_thresholds]
    by (simp only: m sort_constant_5 confidence_constant_5)
qed

lemma steady_pod_analysis:
  "\<not> isl (analyzeCPUUsage NewRecommendationEngine (CPUUsageHistory steady_pod) zero_thresholds)"
  "snd (projr (analyzeCPUUsage NewRecommendationEngine (CPUUsageHistory steady_pod) zero_thresholds)) = 100"
  "\<not> isl (analyzeMemoryUsage NewRecommendationEngine (MemUsageHistory steady_pod) zero_thresholds)"
  "snd (projr (analyzeMemoryUsage NewRecommendationEngine (MemUsageHistory steady_pod) zero_thresholds)) = 100"
proof -
  have n: "\<not> int (length (CPUUsageHistory steady_pod)) < MinDataPoints NewRecommendationEngine"
     "\<not> int (length (MemUsageHistory steady_pod)) < MinDataPoints NewRecommendationEngine"
    by (simp_all add: steady_pod_def pod_with_usage_def NewRecommendationEngine_def)
  have c: "CPUUsageHistory steady_pod = map usage_sample [1, 1, 1, 1, 1, 1, 1, 1, 1, 1]"
    and m: "MemUsageHistory steady_pod = map usage_sample [5, 5, 5, 5, 5, 5, 5, 5, 5, 5]"
    by (simp_all add: steady_pod_def pod_with_usage_def)
  show "\<not> isl (analyzeCPUUsage NewRecommendationEngine (CPUUsageHistory steady_pod) zero_thresholds)"
    using analyzeCPUUsage_ok[OF n(1)] by simp
  show "snd (projr (analyzeCPUUsage NewRecommendationEngine (CPUUsageHistory steady_pod) zero_thresholds)) = 100"
    using analyzeCPUUsage_ok[OF n(1), of zero_thresholds]
    by (simp only: c sort_constant_1 confidence_constant_1)
  show "\<not> isl (analyzeMemoryUsage NewRecommendationEngine (MemUsageHistory steady_pod) zero_thresholds)"
    using analyzeMemoryUsage_ok[OF n(2)] by simp
  show "snd (projr (analyzeMemoryUsage NewRecommendationEngine (MemUsageHistory steady_pod) zero_thresholds)) = 100"
    using analyzeMemoryUsage_ok[OF n(2), of zero_thresholds]
    by (simp only: m sort_constant_5 confidence_constant_5)
qed

lemma Inr_projr: "\<not> isl x \<Longrightarrow> x = Inr (fst (projr x), snd (projr x))"
  by (cases x) simp_all

theorem confidence_gate_suppresses_pod_witness:
  "\<not> isl (analyzeCPUUsage NewRecommendationEngine (CPUUsageHistory noisy_pod) zero_thresholds) \<and>
   \<not> isl (analyzeMemoryUsage NewRecommendationEngine (MemUsageHistory noisy_pod) zero_thresholds) \<and>
   min (47::int) 100 < DefaultConfidenceThreshold NewRecommendationEngine \<and>
   generatePodRecommendation NewRecommendationEngine noisy_pod zero_thresholds = Inr None \<and>
   GenerateRecommendations NewRecommendationEngine
     ((workload_of [])\<lparr>Pods := [] @ noisy_pod # []\<rparr>) zero_thresholds = Inr [] \<and>
   \<not> min (100::int) 100 < DefaultConfidenceThreshold NewRecommendationEngine \<and>
   (\<exists>rec. generatePodRecommendation NewRecommendationEngine steady_pod zero_thresholds
            = Inr (Some rec) \<and> Confidence rec = 100)"
proof -
  note n = noisy_pod_analysis and s = steady_pod_analysis
  have t: "DefaultConfidenceThreshold NewRecommendationEngine = 70"
    by (simp add: NewRecommendationEngine_def)
  have a: "generatePodRecommendation NewRecommendationEngine noisy_pod zero_thresholds = Inr None \<and>
     GenerateRecommendations NewRecommendationEngine
       ((workload_of [])\<lparr>Pods := [] @ noisy_pod # []\<rparr>) zero_thresholds = Inr []"
    using confidence_gate_suppresses_pod[OF Inr_projr[OF n(1)] Inr_projr[OF n(3)],
        where wm = "workload_of []" and ps = "[]" and qs = "[]"]
    by (simp add: n(2) n(4) t)
  have b: "\<exists>rec. generatePodRecommendation NewRecommendationEngine steady_pod zero_thresholds
            = Inr (Some rec) \<and> Confidence rec = 100"
    using confidence_gate_suppresses_pod[OF Inr_projr[OF s(1)] Inr_projr[OF s(3)],
        where wm = "workload_of []" and ps = "[]" and qs = "[]"]
    by (simp add: s(2) s(4) t)
  show ?thesis using n(1) n(3) a b by (simp add: t)
qed

subsection \<open>Insufficient data\<close>

lemma analyze_insufficient:
  "int (length h) < MinDataPoints r \<Longrightarrow>
     analyzeCPUUsage r h th = Inl (InsufficientCPUData (length h) (MinDataPoints r)) \<and>
     analyzeMemoryUsage r h th = Inl (InsufficientMemoryData (length h) (MinDataPoints r))"
  by (simp add: analyzeCPUUsage_def analyzeMemoryUsage_def)

lemma generatePodRecommendation_insufficient:
  "int (length (CPUUsageHistory pm)) < MinDataPoints r \<Longrightarrow>
     generatePodRecommendation r pm th
       = Inl (InsufficientCPUData (length (CPUUsageHistory pm)) (MinDataPoints r))"
  "\<not> int (length (CPUUsageHistory pm)) < MinDataPoints r \<Longrightarrow>
   int (length (MemUsageHistory pm)) < MinDataPoints r \<Longrightarrow>
     generatePodRecommendation r pm th
       = Inl (InsufficientMemoryData (length (MemUsageHistory pm)) (MinDataPoints r))"
  by (simp_all add: generatePodRecommendation_def analyzeCPUUsage_def analyzeMemoryUsage_def Let_def)

text \<open>
  C3 (as amended). A usage series with fewer samples than the engine's minimum (10 by
  default) makes the per-resource analysis fail with an explicit insufficient-data error.
  \<^const>\<open>generatePodRecommendation\<close> then fails with that error, so the pod gets no
  recommendation for either resource; the other pods of the workload are unaffected.
\<close>

theorem insufficient_data_drops_pod:
  assumes "int (length (CPUUsageHistory pm)) < MinDataPoints r \<or>
           int (length (MemUsageHistory pm)) < MinDataPoints r"
  shows "(int (length h) < MinDataPoints r \<longrightarrow>
            analyzeCPUUsage r h th = Inl (InsufficientCPUData (length h) (MinDataPoints r)) \<and>
            analyzeMemoryUsage r h th = Inl (InsufficientMemoryData (length h) (MinDataPoints r))) \<and>
         (int (length (CPUUsageHistory pm)) < MinDataPoints r \<longrightarrow>
            generatePodRecommendation r pm th
              = Inl (InsufficientCPUData (length (CPUUsageHistory pm)) (MinDataPoints r))) \<and>
         (\<not> int (length (CPUUsageHistory pm)) < MinDataPoints r \<longrightarrow>
            generatePodRecommendation r pm th
              = Inl (InsufficientMemoryData (length (MemUsageHistory pm)) (MinDataPoints r))) \<and>
         GenerateRecommendations r (wm\<lparr>Pods := ps @ pm # qs\<rparr>) th =
           Inr (GenerateRecommendations_loop r ps th [] @ GenerateRecommendations_loop r qs th []) \<and>
         MinDataPoints NewRecommendationEngine = 10"
proof -
  note g = generatePodRecommendation_insufficient[of pm r th]
  have a: "\<exists>e. generatePodRecommendation r pm th = Inl e" using assms g by blast
  then obtain e where e: "generatePodRecommendation r pm th = Inl e" ..
  have b: "GenerateRecommendations r (wm\<lparr>Pods := ps @ pm # qs\<rparr>) th =
           Inr (GenerateRecommendations_loop r ps th [] @ GenerateRecommendations_loop r qs th [])"
    using GenerateRecommendations_loop_skip[of r pm th e ps qs] e
    by (simp add: GenerateRecommendations_def)
  have c: "MinDataPoints NewRecommendationEngine = 10" by (simp add: NewRecommendationEngine_def)
  show ?thesis using assms analyze_insufficient[of h r th] g b c by blast
qed

lemma short_pods_lengths:
  "length (CPUUsageHistory short_cpu_pod) = 9" "length (MemUsageHistory short_cpu_pod) = 10"
  "length (CPUUsageHistory short_mem_pod) = 10" "length (MemUsageHistory short_mem_pod) = 9"
  by (simp_all add: short_cpu_pod_def short_mem_pod_def pod_with_usage_def)

theorem insufficient_data_drops_pod_witness:
  "int (length (CPUUsageHistory short_cpu_pod)) < MinDataPoints NewRecommendationEngine \<and>
   generatePodRecommendation NewRecommendationEngine short_cpu_pod zero_thresholds
     = Inl (InsufficientCPUData 9 10) \<and>
   \<not> int (length (CPUUsageHistory short_mem_pod)) < MinDataPoints NewRecommendationEngine \<and>
   int (length (MemUsageHistory short_mem_pod)) < MinDataPoints NewRecommendationEngine \<and>
   generatePodRecommendation NewRecommendationEngine short_mem_pod zero_thresholds
     = Inl (InsufficientMemoryData 9 10) \<and>
   GenerateRecommendations NewRecommendationEngine
     ((workload_of [])\<lparr>Pods := [] @ short_cpu_pod # []\<rparr>) zero_thresholds = Inr []"
proof -
  have m: "MinDataPoints NewRecommendationEngine = 10" by (simp add: NewRecommendationEngine_def)
  have h1: "int (length (CPUUsageHistory short_cpu_pod)) < MinDataPoints NewRecommendationEngine \<or>
            int (length (MemUsageHistory short_cpu_pod)) < MinDataPoints NewRecommendationEngine"
    by (simp add: m short_pods_lengths)
  have h2: "int (length (CPUUsageHistory short_mem_pod)) < MinDataPoints NewRecommendationEngine \<or>
            int (length (MemUsageHistory short_mem_pod)) < MinDataPoints NewRecommendationEngine"
    by (simp add: m short_pods_lengths)
  show ?thesis
    using insufficient_data_drops_pod[OF h1, where th = zero_thresholds and wm = "workload_of []"
            and ps = "[]" and qs = "[]" and h = "[]"]
          insufficient_data_drops_pod[OF h2, where th = zero_thresholds and wm = "workload_of []"
            and ps = "[]" and qs = "[]" and h = "[]"]
    by (simp add: m short_pods_lengths)
qed

text \<open>
  C3 as stated fails: with nine CPU samples and ten memory samples the memory analysis on
  its own succeeds, yet the CPU failure ends \<^const>\<open>generatePodRecommendation\<close> and the
  pod gets no memory recommendation either.
\<close>

theorem insufficient_data_other_resource_counterexample:
  "\<not> isl (analyzeMemoryUsage NewRecommendationEngine (MemUsageHistory short_cpu_pod) zero_thresholds) \<and>
   generatePodRecommendation NewRecommendationEngine short_cpu_pod zero_thresholds
     = Inl (InsufficientCPUData 9 10) \<and>
   GenerateRecommendations NewRecommendationEngine (workload_of [short_cpu_pod]) zero_thresholds
     = Inr []"
proof -
  have m: "MinDataPoints NewRecommendationEngine = 10" by (simp add: NewRecommendationEngine_def)
  have a: "\<not> isl (analyzeMemoryUsage NewRecommendationEngine (MemUsageHistory short_cpu_pod) zero_thresholds)"
    using analyzeMemoryUsage_ok[of "MemUsageHistory short_cpu_pod" NewRecommendationEngine zero_thresholds]
    by (simp add: m short_pods_lengths)
  have b: "generatePodRecommendation NewRecommendationEngine short_cpu_pod zero_thresholds
     = Inl (InsufficientCPUData 9 10)"
    using generatePodRecommendation_insufficient(1)[of short_cpu_pod NewRecommendationEngine zero_thresholds]
    by (simp add: m short_pods_lengths)
  have c: "GenerateRecommendations NewRecommendationEngine (workload_of [short_cpu_pod]) zero_thresholds
     = Inr []"
    by (simp add: GenerateRecommendations_def workload_of_def b)
  show ?thesis using a b c by blast
qed
subsection \<open>Requests derived from limits\<close>



















section \<open>Properties of the reconciler\<close>

subsection \<open>Excluded namespaces\<close>

lemma isNamespaceExcluded_iff: "isNamespaceExcluded ns excl \<longleftrightarrow> ns \<in> set excl"
  by (induction excl) auto

lemma discoverTargetPods_loop_excludes:
  assumes "\<forall>ns \<in> set nss. ns \<noteq> ''''"
    and "discoverTargetPods_loop r cl prs selector nss pods = Inr out"
    and "\<forall>pod \<in> set pods. pod_Namespace pod \<notin> set (ExcludeNamespaces (Target (Spec prs)))"
  shows "\<forall>pod \<in> set out. pod_Namespace pod \<notin> set (ExcludeNamespaces (Target (Spec prs)))"
  using assms
proof (induction nss arbitrary: pods)
  case Nil
  then show ?case by simp
next
  case (Cons ns nss)
  show ?case
  proof (cases "isNamespaceExcluded ns (ExcludeNamespaces (Target (Spec prs)))")
    case True
    then show ?thesis using Cons by simp
  next
    case False
    then obtain items where l: "ListPods r cl selector (Some ns) = Inr items"
      using Cons.prems by (cases "ListPods r cl selector (Some ns)") auto
    have "\<forall>pod \<in> set items. pod_Namespace pod = ns"
      using l by (auto simp: ListPods_def split: option.splits)
    then have "\<forall>pod \<in> set (pods @ filter (\<lambda>pod. shouldIncludePod pod prs) items).
                 pod_Namespace pod \<notin> set (ExcludeNamespaces (Target (Spec prs)))"
      using Cons.prems(3) False by (auto simp: isNamespaceExcluded_iff)
    moreover have "discoverTargetPods_loop r cl prs selector nss
        (pods @ filter (\<lambda>pod. shouldIncludePod pod prs) items) = Inr out"
      using Cons.prems False l by simp
    ultimately show ?thesis using Cons.IH Cons.prems(1) by simp
  qed
qed

text \<open>
  With an exact namespace, or with a namespace selector over namespaces that all have a
  name, no discovered pod is in an excluded namespace.
\<close>

lemma discoverTargetPods_excludes_named_namespaces:
  assumes "NamespaceSelector (Target (Spec prs)) \<noteq> None \<or> target_Namespace (Target (Spec prs)) \<noteq> ''''"
    and "\<forall>ns \<in> set (cl_Namespaces cl). ns_Name ns \<noteq> ''''"
    and "discoverTargetPods r cl prs = Inr out"
  shows "\<forall>pod \<in> set out. pod_Namespace pod \<notin> set (ExcludeNamespaces (Target (Spec prs)))"
proof -
  obtain selector nss where
    l: "discoverTargetPods_loop r cl prs selector nss [] = Inr out" and n: "\<forall>ns \<in> set nss. ns \<noteq> ''''"
    using assms unfolding discoverTargetPods_def ListNamespaces_def
    by (auto simp del: discoverTargetPods_loop.simps split: option.splits sum.splits if_splits)
  show ?thesis using discoverTargetPods_loop_excludes[OF n l] by simp
qed

text \<open>
  C7. Discovery is meant to leave out every pod of a namespace listed in
  \<^verbatim>\<open>ExcludeNamespaces\<close>. When neither a namespace nor a namespace selector is set, the
  code lists the pods of all namespaces under the placeholder namespace \<open>''''\<close> and checks
  only that placeholder against the list: the running pod of \<open>kube-system\<close> is discovered
  although \<open>kube-system\<close> is excluded.
\<close>

theorem discoverTargetPods_all_namespaces_keeps_excluded:
  "isNamespaceExcluded (pod_Namespace system_pod)
     (ExcludeNamespaces (Target (Spec (policy_for exclude_system_target True)))) \<and>
   discoverTargetPods (reconciler_with (\<lambda>n. None))
     (cluster_with (policy_for exclude_system_target True) [system_pod, app_pod])
     (policy_for exclude_system_target True) = Inr [system_pod, app_pod] \<and>
   discoverTargetPods (reconciler_with (\<lambda>n. None))
     (cluster_with (policy_for default_namespace_target True) [system_pod, app_pod])
     (policy_for default_namespace_target True) = Inr [app_pod]"
proof -
  have inc: "shouldIncludePod system_pod (policy_for exclude_system_target True)"
    "shouldIncludePod app_pod (policy_for exclude_system_target True)"
    "shouldIncludePod system_pod (policy_for default_namespace_target True)"
    "shouldIncludePod app_pod (policy_for default_namespace_target True)"
    by (simp_all add: shouldIncludePod_def system_pod_def app_pod_def pod_of_def policy_for_def
        exclude_system_target_def default_namespace_target_def)
  have ns: "pod_Namespace system_pod = ''kube-system''" "pod_Namespace app_pod = ''default''"
    by (simp_all add: system_pod_def app_pod_def pod_of_def)
  have t: "Target (Spec (policy_for tg d)) = tg" for tg d
    by (simp add: policy_for_def)
  have lp_all: "ListPods (reconciler_with (\<lambda>n. None)) (cluster_with p [system_pod, app_pod])
      (\<lambda>labels. True) None = Inr [system_pod, app_pod]" for p
    by (simp add: ListPods_def reconciler_with_def cluster_with_def)
  have lp_default: "ListPods (reconciler_with (\<lambda>n. None)) (cluster_with p [system_pod, app_pod])
      (\<lambda>labels. True) (Some ''default'') = Inr [app_pod]" for p
    by (simp add: ListPods_def reconciler_with_def cluster_with_def ns)
  have f: "LabelSelector exclude_system_target = None"
    "NamespaceSelector exclude_system_target = None"
    "target_Namespace exclude_system_target = ''''"
    "ExcludeNamespaces exclude_system_target = [''kube-system'']"
    by (simp_all add: exclude_system_target_def)
  have g: "LabelSelector default_namespace_target = None"
    "NamespaceSelector default_namespace_target = None"
    "target_Namespace default_namespace_target = ''default''"
    "ExcludeNamespaces default_namespace_target = [''kube-system'']"
    by (simp_all add: default_namespace_target_def)
  have a: "isNamespaceExcluded (pod_Namespace system_pod)
     (ExcludeNamespaces (Target (Spec (policy_for exclude_system_target True))))"
    by (simp add: t ns f)
  have b: "discoverTargetPods (reconciler_with (\<lambda>n. None))
     (cluster_with (policy_for exclude_system_target True) [system_pod, app_pod])
     (policy_for exclude_system_target True) = Inr [system_pod, app_pod]"
    unfolding discoverTargetPods_def t
    by (simp add: f t lp_all inc)
  have c: "discoverTargetPods (reconciler_with (\<lambda>n. None))
     (cluster_with (policy_for default_namespace_target True) [system_pod, app_pod])
     (policy_for default_namespace_target True) = Inr [app_pod]"
    unfolding discoverTargetPods_def t
    by (simp add: g t lp_default inc)
  show ?thesis using a b c by simp
qed

subsection \<open>What a pass changes in the cluster\<close>

lemma same_but_workloads_refl: "same_but_workloads cl cl"
  by (simp add: same_but_workloads_def)

lemma same_but_workloads_trans:
  "same_but_workloads a b \<Longrightarrow> same_but_workloads b c \<Longrightarrow> same_but_workloads a c"
  by (simp add: same_but_workloads_def)

lemma UpdateWorkload_frame: "same_but_workloads cl (snd (UpdateWorkload r cl wl))"
  by (simp add: UpdateWorkload_def same_but_workloads_def split: option.splits)

lemma updateWorkloadResources_frame:
  "same_but_workloads cl (snd (updateWorkloadResources r cl obj resources t n))"
proof -
  obtain cs u where c: "updateContainerResources (wl_Containers obj) resources = (cs, u)"
    by (cases "updateContainerResources (wl_Containers obj) resources")
  obtain e cl' where u: "UpdateWorkload r cl (obj\<lparr>wl_Containers := cs\<rparr>) = (e, cl')"
    by (cases "UpdateWorkload r cl (obj\<lparr>wl_Containers := cs\<rparr>)")
  then have "same_but_workloads cl cl'"
    using UpdateWorkload_frame[of cl r "obj\<lparr>wl_Containers := cs\<rparr>"] by simp
  then show ?thesis
    using c u same_but_workloads_refl[of cl]
    by (cases e) (simp_all add: updateWorkloadResources_def)
qed

lemma updateDeployment_frame:
  "same_but_workloads cl (snd (updateDeployment r cl ns n resources))"
proof (cases "GetWorkload cl ''Deployment'' ns n")
  case (Inl e)
  then show ?thesis using same_but_workloads_refl[of cl] by (simp add: updateDeployment_def)
next
  case (Inr obj)
  obtain cs u where c: "updateContainerResources (wl_Containers obj) resources = (cs, u)"
    by (cases "updateContainerResources (wl_Containers obj) resources")
  obtain e cl' where u: "UpdateWorkload r cl (obj\<lparr>wl_Containers := cs\<rparr>) = (e, cl')"
    by (cases "UpdateWorkload r cl (obj\<lparr>wl_Containers := cs\<rparr>)")
  then have "same_but_workloads cl cl'"
    using UpdateWorkload_frame[of cl r "obj\<lparr>wl_Containers := cs\<rparr>"] by simp
  then show ?thesis
    using c u Inr same_but_workloads_refl[of cl]
    by (cases e) (simp_all add: updateDeployment_def)
qed

lemma updateStatefulSet_frame:
  "same_but_workloads cl (snd (updateStatefulSet r cl ns n resources))"
  using same_but_workloads_refl[of cl] updateWorkloadResources_frame[of cl r]
  by (cases "GetWorkload cl ''StatefulSet'' ns n") (simp_all add: updateStatefulSet_def)

lemma updateDaemonSet_frame:
  "same_but_workloads cl (snd (updateDaemonSet r cl ns n resources))"
  using same_but_workloads_refl[of cl] updateWorkloadResources_frame[of cl r]
  by (cases "GetWorkload cl ''DaemonSet'' ns n") (simp_all add: updateDaemonSet_def)

lemma applyWorkloadRecommendations_frame:
  "same_but_workloads cl (snd (applyWorkloadRecommendations r cl prs key recs))"
  using same_but_workloads_refl[of cl] updateDeployment_frame[of cl r] updateStatefulSet_frame[of cl r]
    updateDaemonSet_frame[of cl r]
  by (simp add: applyWorkloadRecommendations_def Let_def)

lemma updateWorkloadResources_count:
  "case fst (updateWorkloadResources r cl obj resources t n) of
     Inl e \<Rightarrow> True | Inr k \<Rightarrow> 0 \<le> k \<and> k \<le> 1"
  by (simp add: updateWorkloadResources_def split: sum.splits prod.splits option.splits)

lemma updateDeployment_count:
  "case fst (updateDeployment r cl ns n resources) of
     Inl e \<Rightarrow> True | Inr k \<Rightarrow> 0 \<le> k \<and> k \<le> 1"
  by (simp add: updateDeployment_def split: sum.splits prod.splits option.splits)

lemma updateStatefulSet_count:
  "case fst (updateStatefulSet r cl ns n resources) of
     Inl e \<Rightarrow> True | Inr k \<Rightarrow> 0 \<le> k \<and> k \<le> 1"
  using updateWorkloadResources_count[of r cl]
  by (cases "GetWorkload cl ''StatefulSet'' ns n") (simp_all add: updateStatefulSet_def)

lemma updateDaemonSet_count:
  "case fst (updateDaemonSet r cl ns n resources) of
     Inl e \<Rightarrow> True | Inr k \<Rightarrow> 0 \<le> k \<and> k \<le> 1"
  using updateWorkloadResources_count[of r cl]
  by (cases "GetWorkload cl ''DaemonSet'' ns n") (simp_all add: updateDaemonSet_def)

lemma applyWorkloadRecommendations_count:
  "case fst (applyWorkloadRecommendations r cl prs key recs) of
     Inl e \<Rightarrow> True | Inr n \<Rightarrow> 0 \<le> n \<and> n \<le> 1"
  using updateDeployment_count[of r cl] updateStatefulSet_count[of r cl]
    updateDaemonSet_count[of r cl]
  by (simp add: applyWorkloadRecommendations_def Let_def)

lemma applyRecommendations_loop_frame:
  "same_but_workloads cl (snd (applyRecommendations_loop r cl prs groups n))"
proof (induction groups arbitrary: cl n)
  case Nil
  then show ?case by (simp add: same_but_workloads_refl)
next
  case (Cons g groups)
  obtain key recs where g: "g = (key, recs)" by (cases g)
  obtain res cl1 where a: "applyWorkloadRecommendations r cl prs key recs = (res, cl1)"
    by (cases "applyWorkloadRecommendations r cl prs key recs")
  then have cl1: "same_but_workloads cl cl1"
    using applyWorkloadRecommendations_frame[of cl r prs key recs] by simp
  show ?case
    using same_but_workloads_trans[OF cl1 Cons.IH[of cl1]] g a by (cases res) simp_all
qed

lemma applyRecommendations_loop_count:
  "n \<le> fst (applyRecommendations_loop r cl prs groups n) \<and>
   fst (applyRecommendations_loop r cl prs groups n) \<le> n + int (length groups)"
proof (induction groups arbitrary: cl n)
  case Nil
  then show ?case by simp
next
  case (Cons g groups)
  obtain key recs where g: "g = (key, recs)" by (cases g)
  obtain res cl1 where a: "applyWorkloadRecommendations r cl prs key recs = (res, cl1)"
    by (cases "applyWorkloadRecommendations r cl prs key recs")
  show ?case
  proof (cases res)
    case (Inl e)
    then show ?thesis using Cons.IH[of n cl1] g a by simp
  next
    case (Inr k)
    then have "0 \<le> k \<and> k \<le> 1"
      using applyWorkloadRecommendations_count[of r cl prs key recs] a by simp
    then show ?thesis using Cons.IH[of "n + k" cl1] g a Inr by simp
  qed
qed

lemma applyRecommendations_frame:
  "same_but_workloads cl (snd (applyRecommendations r cl prs recs))"
  unfolding applyRecommendations_def by (rule applyRecommendations_loop_frame)

subsection \<open>Status writes\<close>

lemma applyRecommendations_frameD:
  "applyRecommendations r cl prs recs = (n, cl') \<Longrightarrow>
     cl_Objects cl' = cl_Objects cl \<and> cl_Gets cl' = cl_Gets cl \<and>
     cl_StatusWrites cl' = cl_StatusWrites cl"
  using applyRecommendations_frame[of cl r prs recs] by (simp add: same_but_workloads_def)

lemma updatePhase_step:
  assumes "updatePhase r cl prs phase message = (e, prs', cl')"
  shows "prs' = prs\<lparr>Status := (Status prs)\<lparr>Phase := phase, Message := message\<rparr>\<rparr>"
    and "cl_StatusWrites cl' = cl_StatusWrites cl + 1"
    and "cl_Gets cl' = cl_Gets cl"
    and "cl_Workloads cl' = cl_Workloads cl \<and> cl_Pods cl' = cl_Pods cl \<and>
         cl_Namespaces cl' = cl_Namespaces cl \<and> cl_ReplicaSets cl' = cl_ReplicaSets cl"
    and "e = None \<Longrightarrow> StatusUpdateFault r (cl_StatusWrites cl) = None"
    and "StatusUpdateFault r (cl_StatusWrites cl) = Some err \<Longrightarrow>
           e = Some err \<and> cl_Objects cl' = cl_Objects cl"
  using assms
  by (auto simp: updatePhase_def StatusUpdate_def Let_def split: option.splits)

lemma writes_accounting:
  fixes c k w2 :: nat
  assumes "w2 = c + k" and "\<forall>i. i + 1 < k \<longrightarrow> F (c + i) = None"
    and "\<forall>j. k = j + 1 \<longrightarrow> F (c + j) \<noteq> None \<longrightarrow> e2 \<noteq> None"
  shows "\<forall>n. c \<le> n \<and> n < w2 \<and> F n \<noteq> None \<longrightarrow> e2 \<noteq> None \<and> w2 = n + 1"
proof (intro allI impI)
  fix n assume n: "c \<le> n \<and> n < w2 \<and> F n \<noteq> None"
  define i where "i = n - c"
  have ni: "n = c + i" "i < k" using n assms(1) unfolding i_def by linarith+
  have "\<not> i + 1 < k" using assms(2) n ni by auto
  then have k: "k = i + 1" using ni by simp
  then show "e2 \<noteq> None \<and> w2 = n + 1" using assms(1,3) n ni by auto
qed

lemma Reconcile_writes:
  assumes rec: "Reconcile r cl req = ((delay, e2), cl2)"
  shows "cl_Gets cl2 = cl_Gets cl + 1 \<and>
         (\<forall>n. cl_StatusWrites cl \<le> n \<and> n < cl_StatusWrites cl2 \<and> StatusUpdateFault r n \<noteq> None
            \<longrightarrow> e2 \<noteq> None \<and> cl_StatusWrites cl2 = n + 1)"
proof -
  let ?c = "cl_StatusWrites cl"
  let ?F = "StatusUpdateFault r"
  have leaf: "cl_Gets cl2 = cl_Gets cl + 1 \<Longrightarrow> cl_StatusWrites cl2 = ?c + k \<Longrightarrow>
      \<forall>i. i + 1 < k \<longrightarrow> ?F (?c + i) = None \<Longrightarrow>
      \<forall>j. k = j + 1 \<longrightarrow> ?F (?c + j) \<noteq> None \<longrightarrow> e2 \<noteq> None \<Longrightarrow> ?thesis" for k
    using writes_accounting[of "cl_StatusWrites cl2" ?c k ?F e2] by blast
  obtain g cl0 where get: "Get r cl req = (g, cl0)" by (cases "Get r cl req")
  have cl0: "cl_Gets cl0 = cl_Gets cl + 1" "cl_StatusWrites cl0 = ?c"
    using get by (auto simp: Get_def Let_def split: option.splits)
  show ?thesis
  proof (cases g)
    case (Inl err)
    then have "cl2 = cl0" using rec get by (simp add: Reconcile_def split: if_splits)
    then show ?thesis using cl0 by (intro leaf[of 0]) simp_all
  next
    case g: (Inr p0)
    show ?thesis
    proof (cases "shouldRunAnalysis r p0")
      case False
      then have "cl2 = cl0" using rec get g by (simp add: Reconcile_def)
      then show ?thesis using cl0 by (intro leaf[of 0]) simp_all
    next
      case due: True
      obtain e1 p1 cl1 where u1:
        "updatePhase r cl0 p0 PhaseAnalyzing ''Starting resource analysis'' = (e1, p1, cl1)"
        by (metis prod_cases3)
      note s1 = updatePhase_step[OF u1]
      have w1: "cl_StatusWrites cl1 = ?c + 1" "cl_Gets cl1 = cl_Gets cl + 1"
        using s1 cl0 by simp_all
      show ?thesis
      proof (cases e1)
        case (Some err)
        then have "cl2 = cl1" "e2 = Some err" using rec get g due u1 by (simp_all add: Reconcile_def)
        then show ?thesis using w1 by (intro leaf[of 1]) simp_all
      next
        case e1: None
        have f0: "?F ?c = None" using s1(5)[OF e1] cl0 by simp
        show ?thesis
        proof (cases "discoverTargetPods r cl1 p1")
          case (Inl err)
          obtain eE pE clE where uE:
            "updatePhase r cl1 p1 PhaseError (''Failed to discover pods: '' @ Error err) = (eE, pE, clE)"
            by (metis prod_cases3)
          note sE = updatePhase_step[OF uE]
          have "cl2 = clE" "e2 = Some err"
            using rec get g due u1 e1 Inl uE by (simp_all add: Reconcile_def)
          then show ?thesis using w1 sE f0
            by (intro leaf[of 2]) (auto simp: eval_nat_numeral less_Suc_eq)
        next
          case d: (Inr targetPods)
          show ?thesis
          proof (cases "int (length targetPods) > MaxInt32")
            case True
            then have "cl2 = cl1" "e2 \<noteq> None"
              using rec get g due u1 e1 d by (auto simp: Reconcile_def)
            then show ?thesis using w1 by (intro leaf[of 1]) simp_all
          next
            case small: False
            define p2 where "p2 = p1\<lparr>Status := (Status p1)\<lparr>TargetedPods := int (length targetPods)\<rparr>\<rparr>"
            show ?thesis
            proof (cases "length targetPods = 0")
              case True
              obtain eC pC clC where uC:
                "updatePhase r cl1 p2 PhaseCompleted ''No matching pods found'' = (eC, pC, clC)"
                by (metis prod_cases3)
              note sC = updatePhase_step[OF uC]
              have "cl2 = clC" "eC \<noteq> None \<longrightarrow> e2 \<noteq> None"
                using rec get g due u1 e1 d small True uC
                by (auto simp: Reconcile_def Let_def p2_def split: option.splits)
              then show ?thesis using w1 sC f0
                by (intro leaf[of 2]) (auto simp: eval_nat_numeral less_Suc_eq)
            next
              case nonempty: False
              obtain e3 p3 cl3 where u3:
                "updatePhase r cl1 p2 PhaseRecommending ''Generating recommendations'' = (e3, p3, cl3)"
                by (metis prod_cases3)
              note s3 = updatePhase_step[OF u3]
              have w3: "cl_StatusWrites cl3 = ?c + 2" "cl_Gets cl3 = cl_Gets cl + 1"
                using s3 w1 by simp_all
              show ?thesis
              proof (cases e3)
                case (Some err)
                then have "cl2 = cl3" "e2 = Some err"
                  using rec get g due u1 e1 d small nonempty u3
                  by (simp_all add: Reconcile_def Let_def p2_def)
                then show ?thesis using w3 f0
                  by (intro leaf[of 2]) (auto simp: eval_nat_numeral less_Suc_eq)
              next
                case e3: None
                have f1: "?F (?c + 1) = None" using s3(5)[OF e3] w1 by simp
                define allRecs where
                  "allRecs = Reconcile_loop r p3 (go_range r (groupPodsByWorkload cl1 targetPods)) []"
                define p4 where "p4 = p3\<lparr>Status := (Status p3)\<lparr>Recommendations := allRecs,
                                    LastAnalysisTime := Some (Now r)\<rparr>\<rparr>"
                define msg where "msg = (if DryRun (Spec p4)
                   then ''Analysis completed. Found '' @ sprint_int (int (length allRecs))
                          @ '' recommendations'' @ '' (dry-run mode)''
                   else ''Analysis completed. Found '' @ sprint_int (int (length allRecs))
                          @ '' recommendations'')"
                show ?thesis
                proof (cases "DryRun (Spec p4)")
                  case dry: True
                  obtain e5 p5 cl5 where u5: "updatePhase r cl3 p4 PhaseCompleted msg = (e5, p5, cl5)"
                    by (metis prod_cases3)
                  note s5 = updatePhase_step[OF u5]
                  have "cl2 = cl5" "e5 \<noteq> None \<longrightarrow> e2 \<noteq> None"
                    using rec get g due u1 e1 d small nonempty u3 e3 dry u5
                    by (auto simp: Reconcile_def Let_def p2_def p4_def allRecs_def msg_def
                        split: option.splits)
                  then show ?thesis using w3 s5 f0 f1
                    by (intro leaf[of 3]) (auto simp: eval_nat_numeral less_Suc_eq)
                next
                  case wet: False
                  obtain e4 p4' cl4 where u4:
                    "updatePhase r cl3 p4 PhaseUpdating ''Applying recommendations'' = (e4, p4', cl4)"
                    by (metis prod_cases3)
                  note s4 = updatePhase_step[OF u4]
                  have w4: "cl_StatusWrites cl4 = ?c + 3" "cl_Gets cl4 = cl_Gets cl + 1"
                    using s4 w3 by simp_all
                  show ?thesis
                  proof (cases e4)
                    case (Some err)
                    then have "cl2 = cl4" "e2 = Some err"
                      using rec get g due u1 e1 d small nonempty u3 e3 wet u4
                      by (simp_all add: Reconcile_def Let_def p2_def p4_def allRecs_def)
                    then show ?thesis using w4 f0 f1
                      by (intro leaf[of 3]) (auto simp: eval_nat_numeral less_Suc_eq)
                  next
                    case e4: None
                    have f2: "?F (?c + 2) = None" using s4(5)[OF e4] w3 by simp
                    obtain cnt clA where ap: "applyRecommendations r cl4 p4' allRecs = (cnt, clA)"
                      by (cases "applyRecommendations r cl4 p4' allRecs")
                    note fa = applyRecommendations_frameD[OF ap]
                    show ?thesis
                    proof (cases "cnt > MaxInt32")
                      case True
                      then have "cl2 = clA" "e2 \<noteq> None"
                        using rec get g due u1 e1 d small nonempty u3 e3 wet u4 e4 ap
                        by (auto simp: Reconcile_def Let_def p2_def p4_def allRecs_def)
                      then show ?thesis using w4 fa f0 f1 f2
                        by (intro leaf[of 3]) (auto simp: eval_nat_numeral less_Suc_eq)
                    next
                      case fits: False
                      define p5 where "p5 = p4'\<lparr>Status := (Status p4')\<lparr>UpdatedPods := cnt,
                                                         LastUpdateTime := Some (Now r)\<rparr>\<rparr>"
                      have dr: "DryRun (Spec p5) = DryRun (Spec p4)"
                        using s4(1) by (simp add: p5_def)
                      obtain e6 p6 cl6 where u6: "updatePhase r clA p5 PhaseCompleted msg = (e6, p6, cl6)"
                        by (metis prod_cases3)
                      note s6 = updatePhase_step[OF u6]
                      have "cl2 = cl6" "e6 \<noteq> None \<longrightarrow> e2 \<noteq> None"
                        using rec get g due u1 e1 d small nonempty u3 e3 wet u4 e4 ap fits u6 dr
                        by (auto simp: Reconcile_def Let_def p2_def p4_def p5_def allRecs_def msg_def
                            split: option.splits)
                      then show ?thesis using w4 fa s6 f0 f1 f2
                        by (intro leaf[of 4]) (auto simp: eval_nat_numeral less_Suc_eq)
                    qed
                  qed
                qed
              qed
            qed
          qed
        qed
      qed
    qed
  qed
qed

text \<open>
  C8 (as amended). A status write is attempted once and is not retried inside the pass:
  \<^const>\<open>updatePhase\<close> makes one write attempt and fetches nothing, and when the write is
  rejected, as on a write conflict, it returns that error and the stored object is
  unchanged. A pass fetches the configuration object once, at its start; when a status
  write of the pass is rejected, that write is the last one of the pass and
  \<^const>\<open>Reconcile\<close> returns an error, so the rejection is not silently dropped and a new
  attempt is left to whoever calls \<^const>\<open>Reconcile\<close> again.
\<close>

theorem status_write_conflict_ends_pass:
  "(updatePhase r cl prs phase message = (e, prs', cl') \<longrightarrow>
      cl_StatusWrites cl' = cl_StatusWrites cl + 1 \<and> cl_Gets cl' = cl_Gets cl \<and>
      (\<forall>err. StatusUpdateFault r (cl_StatusWrites cl) = Some err \<longrightarrow>
             e = Some err \<and> cl_Objects cl' = cl_Objects cl)) \<and>
   (Reconcile r cl req = ((delay, e2), cl2) \<longrightarrow>
      cl_Gets cl2 = cl_Gets cl + 1 \<and>
      (\<forall>n. cl_StatusWrites cl \<le> n \<and> n < cl_StatusWrites cl2 \<and> StatusUpdateFault r n \<noteq> None
         \<longrightarrow> e2 \<noteq> None \<and> cl_StatusWrites cl2 = n + 1))"
proof (intro conjI impI)
  assume u: "updatePhase r cl prs phase message = (e, prs', cl')"
  show "cl_StatusWrites cl' = cl_StatusWrites cl + 1" by (rule updatePhase_step(2)[OF u])
  show "cl_Gets cl' = cl_Gets cl" by (rule updatePhase_step(3)[OF u])
  show "\<forall>err. StatusUpdateFault r (cl_StatusWrites cl) = Some err \<longrightarrow>
             e = Some err \<and> cl_Objects cl' = cl_Objects cl"
    using updatePhase_step(6)[OF u] by simp
next
  assume rc: "Reconcile r cl req = ((delay, e2), cl2)"
  show "cl_Gets cl2 = cl_Gets cl + 1"
    using Reconcile_writes[OF rc] by (rule conjunct1)
  show "\<forall>n. cl_StatusWrites cl \<le> n \<and> n < cl_StatusWrites cl2 \<and> StatusUpdateFault r n \<noteq> None
         \<longrightarrow> e2 \<noteq> None \<and> cl_StatusWrites cl2 = n + 1"
    using Reconcile_writes[OF rc] by (rule conjunct2)
qed

lemma conflict_pass:
  "Get (reconciler_with conflict_on_first_write)
     (cluster_with (policy_for default_namespace_target True) [app_pod]) (''default'', ''policy'')
     = (Inr (policy_for default_namespace_target True),
        (cluster_with (policy_for default_namespace_target True) [app_pod])\<lparr>cl_Gets := 1\<rparr>)"
  "shouldRunAnalysis (reconciler_with conflict_on_first_write)
     (policy_for default_namespace_target True)"
  "updatePhase (reconciler_with conflict_on_first_write)
     ((cluster_with (policy_for default_namespace_target True) [app_pod])\<lparr>cl_Gets := g\<rparr>)
     (policy_for default_namespace_target True) PhaseAnalyzing ''Starting resource analysis''
     = (Some (Conflict ''the object has been modified''),
        (policy_for default_namespace_target True)\<lparr>Status :=
           (Status (policy_for default_namespace_target True))\<lparr>Phase := PhaseAnalyzing,
              Message := ''Starting resource analysis''\<rparr>\<rparr>,
        (cluster_with (policy_for default_namespace_target True) [app_pod])
          \<lparr>cl_Gets := g, cl_StatusWrites := 1\<rparr>)"
    by (simp_all add: Get_def shouldRunAnalysis_def updatePhase_def StatusUpdate_def Let_def
        reconciler_with_def cluster_with_def policy_for_def conflict_on_first_write_def)

lemma conflict_Reconcile:
  "Reconcile (reconciler_with conflict_on_first_write)
     (cluster_with (policy_for default_namespace_target True) [app_pod]) (''default'', ''policy'')
     = ((0, Some (Conflict ''the object has been modified'')),
        (cluster_with (policy_for default_namespace_target True) [app_pod])
          \<lparr>cl_Gets := 1, cl_StatusWrites := 1\<rparr>)"
  by (simp only: Reconcile_def conflict_pass prod.case sum.case option.case
        not_True_eq_False if_False)

theorem status_write_conflict_ends_pass_witness:
  "Reconcile (reconciler_with conflict_on_first_write)
     (cluster_with (policy_for default_namespace_target True) [app_pod]) (''default'', ''policy'')
     = ((0, Some (Conflict ''the object has been modified'')),
        (cluster_with (policy_for default_namespace_target True) [app_pod])
          \<lparr>cl_Gets := 1, cl_StatusWrites := 1\<rparr>) \<and>
   StatusUpdateFault (reconciler_with conflict_on_first_write) 0
     = Some (Conflict ''the object has been modified'') \<and>
   cl_Gets ((cluster_with (policy_for default_namespace_target True) [app_pod])
              \<lparr>cl_Gets := 1, cl_StatusWrites := 1\<rparr>)
     = cl_Gets (cluster_with (policy_for default_namespace_target True) [app_pod]) + 1 \<and>
   cl_StatusWrites ((cluster_with (policy_for default_namespace_target True) [app_pod])
              \<lparr>cl_Gets := 1, cl_StatusWrites := 1\<rparr>) = 0 + 1"
proof -
  have f: "StatusUpdateFault (reconciler_with conflict_on_first_write) 0
     = Some (Conflict ''the object has been modified'')"
    by (simp add: reconciler_with_def conflict_on_first_write_def)
  have c: "cl_StatusWrites (cluster_with (policy_for default_namespace_target True) [app_pod]) = 0"
    "cl_Gets (cluster_with (policy_for default_namespace_target True) [app_pod]) = 0"
    by (simp_all add: cluster_with_def)
  have "Reconcile (reconciler_with conflict_on_first_write)
     (cluster_with (policy_for default_namespace_target True) [app_pod]) (''default'', ''policy'')
     = ((0, Some (Conflict ''the object has been modified'')),
        (cluster_with (policy_for default_namespace_target True) [app_pod])
          \<lparr>cl_Gets := 1, cl_StatusWrites := 1\<rparr>) \<longrightarrow>
     cl_Gets ((cluster_with (policy_for default_namespace_target True) [app_pod])
              \<lparr>cl_Gets := 1, cl_StatusWrites := 1\<rparr>)
       = cl_Gets (cluster_with (policy_for default_namespace_target True) [app_pod]) + 1 \<and>
     (\<forall>n. cl_StatusWrites (cluster_with (policy_for default_namespace_target True) [app_pod]) \<le> n \<and>
        n < cl_StatusWrites ((cluster_with (policy_for default_namespace_target True) [app_pod])
              \<lparr>cl_Gets := 1, cl_StatusWrites := 1\<rparr>) \<and>
        StatusUpdateFault (reconciler_with conflict_on_first_write) n \<noteq> None
        \<longrightarrow> Some (Conflict ''the object has been modified'') \<noteq> None \<and>
            cl_StatusWrites ((cluster_with (policy_for default_namespace_target True) [app_pod])
              \<lparr>cl_Gets := 1, cl_StatusWrites := 1\<rparr>) = n + 1)"
    by (rule status_write_conflict_ends_pass[THEN conjunct2])
  then have g: "cl_Gets ((cluster_with (policy_for default_namespace_target True) [app_pod])
              \<lparr>cl_Gets := 1, cl_StatusWrites := 1\<rparr>)
       = cl_Gets (cluster_with (policy_for default_namespace_target True) [app_pod]) + 1"
    and a: "\<forall>n. cl_StatusWrites (cluster_with (policy_for default_namespace_target True) [app_pod]) \<le> n \<and>
        n < cl_StatusWrites ((cluster_with (policy_for default_namespace_target True) [app_pod])
              \<lparr>cl_Gets := 1, cl_StatusWrites := 1\<rparr>) \<and>
        StatusUpdateFault (reconciler_with conflict_on_first_write) n \<noteq> None
        \<longrightarrow> Some (Conflict ''the object has been modified'') \<noteq> None \<and>
            cl_StatusWrites ((cluster_with (policy_for default_namespace_target True) [app_pod])
              \<lparr>cl_Gets := 1, cl_StatusWrites := 1\<rparr>) = n + 1"
    using conflict_Reconcile by blast+
  have w: "cl_StatusWrites ((cluster_with (policy_for default_namespace_target True) [app_pod])
              \<lparr>cl_Gets := 1, cl_StatusWrites := 1\<rparr>) = 0 + 1"
    using a[rule_format, of 0] f c by simp
  show ?thesis using conflict_Reconcile f g w by blast
qed

text \<open>
  C8 as stated fails: when the first status write of a pass meets a conflict,
  \<^const>\<open>updatePhase\<close> returns the conflict after that single attempt, the stored status
  keeps its old phase, and \<^const>\<open>Reconcile\<close> ends the pass with the one fetch it began
  with and no second write.
\<close>

theorem status_write_conflict_counterexample:
  "fst (updatePhase (reconciler_with conflict_on_first_write)
          (cluster_with (policy_for default_namespace_target True) [app_pod])
          (policy_for default_namespace_target True) PhaseAnalyzing ''Starting resource analysis'')
     = Some (Conflict ''the object has been modified'') \<and>
   Reconcile (reconciler_with conflict_on_first_write)
     (cluster_with (policy_for default_namespace_target True) [app_pod]) (''default'', ''policy'')
     = ((0, Some (Conflict ''the object has been modified'')),
        (cluster_with (policy_for default_namespace_target True) [app_pod])
          \<lparr>cl_Gets := 1, cl_StatusWrites := 1\<rparr>) \<and>
   map_option (\<lambda>prs. Phase (Status prs))
     (cl_Objects ((cluster_with (policy_for default_namespace_target True) [app_pod])
                    \<lparr>cl_Gets := 1, cl_StatusWrites := 1\<rparr>) (''default'', ''policy''))
     = Some PhaseNone"
proof -
  have a: "fst (updatePhase (reconciler_with conflict_on_first_write)
          (cluster_with (policy_for default_namespace_target True) [app_pod])
          (policy_for default_namespace_target True) PhaseAnalyzing ''Starting resource analysis'')
     = Some (Conflict ''the object has been modified'')"
    using conflict_pass(3)[of 0] by (simp add: cluster_with_def)
  have b: "map_option (\<lambda>prs. Phase (Status prs))
     (cl_Objects ((cluster_with (policy_for default_namespace_target True) [app_pod])
                    \<lparr>cl_Gets := 1, cl_StatusWrites := 1\<rparr>) (''default'', ''policy''))
     = Some PhaseNone"
    by (simp add: cluster_with_def policy_for_def)
  show ?thesis using a b conflict_Reconcile by simp
qed
subsection \<open>Isolation of workload failures\<close>

lemma Reconcile_loop_successful:
  "Reconcile_loop r prs groups acc = acc @ successful_recommendations r prs groups"
proof (induction groups arbitrary: acc)
  case Nil
  then show ?case by (simp add: successful_recommendations_def)
next
  case (Cons g groups)
  obtain key pods where g: "g = (key, pods)" by (cases g)
  show ?case
    using Cons.IH g
    by (cases "generateWorkloadRecommendations r prs key pods")
       (simp_all add: successful_recommendations_def)
qed

lemma successful_recommendations_skip:
  assumes "generateWorkloadRecommendations r prs key pods = Inl err"
  shows "successful_recommendations r prs (gs1 @ (key, pods) # gs2)
           = successful_recommendations r prs gs1 @ successful_recommendations r prs gs2"
  using assms by (simp add: successful_recommendations_def)

lemma generateWorkloadRecommendations_Spec:
  assumes "Spec p = Spec q"
  shows "generateWorkloadRecommendations r p key pods = generateWorkloadRecommendations r q key pods"
  unfolding generateWorkloadRecommendations_def assms ..

lemma successful_recommendations_Spec:
  "Spec p = Spec q \<Longrightarrow> successful_recommendations r p groups = successful_recommendations r q groups"
  using generateWorkloadRecommendations_Spec[of p q r]
  by (simp add: successful_recommendations_def)

lemma shouldIncludePod_Spec:
  assumes "Spec p = Spec q"
  shows "shouldIncludePod pod p = shouldIncludePod pod q"
  unfolding shouldIncludePod_def assms ..

lemma ListPods_pods:
  assumes "cl_Pods a = cl_Pods b"
  shows "ListPods r a selector ns = ListPods r b selector ns"
  unfolding ListPods_def assms ..

lemma discoverTargetPods_loop_frame:
  assumes "Spec p = Spec q" "cl_Pods a = cl_Pods b"
  shows "discoverTargetPods_loop r a p selector nss pods = discoverTargetPods_loop r b q selector nss pods"
proof (induction nss arbitrary: pods)
  case Nil
  then show ?case by simp
next
  case (Cons ns nss)
  have f: "(\<lambda>pod. shouldIncludePod pod p) = (\<lambda>pod. shouldIncludePod pod q)"
    using shouldIncludePod_Spec[OF assms(1)] by auto
  show ?case
    unfolding discoverTargetPods_loop.simps f assms(1) ListPods_pods[OF assms(2)] Cons.IH ..
qed

lemma discoverTargetPods_frame:
  assumes "Spec p = Spec q" "cl_Pods a = cl_Pods b" "cl_Namespaces a = cl_Namespaces b"
  shows "discoverTargetPods r a p = discoverTargetPods r b q"
  unfolding discoverTargetPods_def ListNamespaces_def
    discoverTargetPods_loop_frame[OF assms(1,2)] assms(1,3) ..

lemma GetReplicaSet_frame:
  assumes "cl_ReplicaSets a = cl_ReplicaSets b"
  shows "GetReplicaSet a ns n = GetReplicaSet b ns n"
  unfolding GetReplicaSet_def assms ..

lemma getWorkloadName_owners_frame:
  assumes "cl_ReplicaSets a = cl_ReplicaSets b"
  shows "getWorkloadName_owners a pod owners = getWorkloadName_owners b pod owners"
proof (induction owners)
  case Nil
  show ?case by simp
next
  case (Cons owner owners)
  show ?case
    unfolding getWorkloadName_owners.simps GetReplicaSet_frame[OF assms] Cons.IH ..
qed

lemma groupPodsByWorkload_loop_frame:
  assumes "cl_ReplicaSets a = cl_ReplicaSets b"
  shows "groupPodsByWorkload_loop a pods groups = groupPodsByWorkload_loop b pods groups"
proof (induction pods arbitrary: groups)
  case Nil
  show ?case by simp
next
  case (Cons pod pods)
  show ?case
    unfolding groupPodsByWorkload_loop.simps getWorkloadName_def
      getWorkloadName_owners_frame[OF assms] Cons.IH ..
qed

lemma groupPodsByWorkload_frame:
  assumes "cl_ReplicaSets a = cl_ReplicaSets b"
  shows "groupPodsByWorkload a pods = groupPodsByWorkload b pods"
  unfolding groupPodsByWorkload_def groupPodsByWorkload_loop_frame[OF assms] ..

subsection \<open>Go maps as association lists\<close>

lemma map_append_keys:
  "map fst (map_append key x m) = (if key \<in> fst ` set m then map fst m else map fst m @ [key])"
  by (auto simp: map_append_def update_keys map_of_eq_None_iff split: option.splits)

lemma map_append_distinct: "distinct (map fst m) \<Longrightarrow> distinct (map fst (map_append key x m))"
  by (simp add: map_append_keys)

lemma map_append_length: "length (map_append key x m) \<le> Suc (length m)"
proof -
  have "length (map fst (map_append key x m)) \<le> Suc (length (map fst m))"
    unfolding map_append_keys by simp
  then show ?thesis by simp
qed

lemma groupPodsByWorkload_loop_distinct:
  "distinct (map fst groups) \<Longrightarrow> distinct (map fst (groupPodsByWorkload_loop cl pods groups))"
  by (induction pods arbitrary: groups) (simp_all add: Let_def map_append_distinct)

lemma groupPodsByWorkload_distinct: "distinct (map fst (groupPodsByWorkload cl pods))"
  by (simp add: groupPodsByWorkload_def groupPodsByWorkload_loop_distinct)

lemma groupRecommendations_length:
  "length (groupRecommendations recs groups) \<le> length groups + length recs"
proof (induction recs arbitrary: groups)
  case Nil
  then show ?case by simp
next
  case (Cons rec recs)
  show ?case
    using Cons.IH[of "map_append (workloadKey (ref_Namespace (PodReference rec))
        (ref_WorkloadType (PodReference rec)) (ref_WorkloadName (PodReference rec))) rec groups"]
      map_append_length[of "workloadKey (ref_Namespace (PodReference rec))
        (ref_WorkloadType (PodReference rec)) (ref_WorkloadName (PodReference rec))" rec groups]
    by (simp add: Let_def)
qed

lemma go_range_length:
  assumes "\<forall>ks. mset (MapOrder r ks) = mset ks"
  shows "length (go_range r m) \<le> length m"
proof -
  have "length (go_range r m) \<le> length (MapOrder r (map fst m))"
    unfolding go_range_def map_filter_def by simp
  also have "\<dots> = length (map fst m)"
    using assms by (metis size_mset)
  finally show ?thesis by simp
qed

lemma go_range_permutation:
  assumes perm: "\<forall>ks. mset (MapOrder r ks) = mset ks" and d: "distinct (map fst m)"
  shows "mset (go_range r m) = mset m"
proof -
  let ?f = "\<lambda>k. (k, the (map_of m k))"
  let ?ks = "MapOrder r (map fst m)"
  have keys: "set ?ks = set (map fst m)"
    using perm by (metis set_mset_mset)
  have some: "map_option (Pair k) (map_of m k) = Some (?f k)" if "k \<in> set ?ks" for k
  proof -
    have "k \<in> fst ` set m" using that keys by simp
    then obtain v where "map_of m k = Some v"
      by (cases "map_of m k") (simp_all add: map_of_eq_None_iff)
    then show ?thesis by simp
  qed
  have "List.map_filter (\<lambda>k. map_option (Pair k) (map_of m k)) ks = map ?f ks"
    if "set ks \<subseteq> set ?ks" for ks
    using that by (induction ks) (simp_all add: map_filter_simps some)
  then have "go_range r m = map ?f ?ks" unfolding go_range_def by simp
  then have "mset (go_range r m) = image_mset ?f (mset ?ks)" by simp
  also have "\<dots> = image_mset ?f (mset (map fst m))" using perm by simp
  also have "\<dots> = mset (map ?f (map fst m))" by (simp only: mset_map)
  also have "map ?f (map fst m) = m"
  proof -
    have "?f (fst x) = x" if "x \<in> set m" for x
    proof -
      have "map_of m (fst x) = Some (snd x)" using d that by (cases x) simp
      then show ?thesis by simp
    qed
    then show ?thesis by (simp add: map_idI)
  qed
  finally show ?thesis .
qed

subsection \<open>A pass without faults of the cluster API\<close>

lemma updatePhase_succeeds:
  assumes f: "StatusUpdateFault r (cl_StatusWrites cl) = None"
    and o: "cl_Objects cl (prs_Namespace p, prs_Name p) = Some stored"
    and u: "updatePhase r cl p phase message = (e, p', cl')"
  shows "e = None"
    and "cl_Objects cl' = (cl_Objects cl)((prs_Namespace p, prs_Name p) \<mapsto> stored\<lparr>Status := Status p'\<rparr>)"
    and "prs_Namespace p' = prs_Namespace p \<and> prs_Name p' = prs_Name p \<and> Spec p' = Spec p"
    and "Phase (Status p') = phase"
    and "Recommendations (Status p') = Recommendations (Status p)"
  using assms by (auto simp: updatePhase_def StatusUpdate_def Let_def)

lemma applyRecommendations_fits:
  assumes perm: "\<forall>ks. mset (MapOrder r ks) = mset ks"
  shows "fst (applyRecommendations r cl prs recs) \<le> int (length recs)"
proof -
  have "fst (applyRecommendations r cl prs recs)
          \<le> 0 + int (length (go_range r (groupRecommendations recs [])))"
    unfolding applyRecommendations_def
    using applyRecommendations_loop_count[of 0 r cl prs "go_range r (groupRecommendations recs [])"]
    by simp
  also have "\<dots> \<le> int (length (groupRecommendations recs []))"
    using go_range_length[OF perm, of "groupRecommendations recs []"] by simp
  also have "\<dots> \<le> int (length recs)"
    using groupRecommendations_length[of recs "[]"] by simp
  finally show ?thesis .
qed

lemma Reconcile_completes:
  assumes get: "GetFault r = None"
    and obj: "cl_Objects cl req = Some prs"
    and key: "req = (prs_Namespace prs, prs_Name prs)"
    and run: "shouldRunAnalysis r prs"
    and writes: "\<forall>n. StatusUpdateFault r n = None"
    and perm: "\<forall>ks. mset (MapOrder r ks) = mset ks"
    and disc: "discoverTargetPods r cl prs = Inr targetPods"
    and nonempty: "targetPods \<noteq> []"
    and small: "int (length targetPods) \<le> MaxInt32"
    and fits: "int (length (successful_recommendations r prs
                  (go_range r (groupPodsByWorkload cl targetPods)))) \<le> MaxInt32"
  shows "\<exists>delay cl'. Reconcile r cl req = ((delay, None), cl') \<and>
           (\<exists>stored. cl_Objects cl' req = Some stored \<and>
              Phase (Status stored) = PhaseCompleted \<and>
              Recommendations (Status stored)
                = successful_recommendations r prs (go_range r (groupPodsByWorkload cl targetPods)))"
proof -
  let ?recs = "successful_recommendations r prs (go_range r (groupPodsByWorkload cl targetPods))"
  have w: "StatusUpdateFault r n = None" for n using writes by simp
  obtain delay e2 cl2 where rec: "Reconcile r cl req = ((delay, e2), cl2)"
    by (cases "Reconcile r cl req") auto
  define cl0 where "cl0 = cl\<lparr>cl_Gets := cl_Gets cl + 1\<rparr>"
  have g: "Get r cl req = (Inr prs, cl0)"
    using get obj by (simp add: Get_def Let_def cl0_def)
  have o0: "cl_Objects cl0 (prs_Namespace prs, prs_Name prs) = Some prs"
    using obj key by (simp add: cl0_def)
  obtain e1 p1 cl1 where u1:
    "updatePhase r cl0 prs PhaseAnalyzing ''Starting resource analysis'' = (e1, p1, cl1)"
    by (metis prod_cases3)
  note s1 = updatePhase_step[OF u1] and t1 = updatePhase_succeeds[OF w o0 u1]
  have e1: "e1 = None" by (rule t1(1))
  have k1: "prs_Namespace p1 = prs_Namespace prs" "prs_Name p1 = prs_Name prs" "Spec p1 = Spec prs"
    using t1(3) by simp_all
  have d: "discoverTargetPods r cl1 p1 = Inr targetPods"
    using disc discoverTargetPods_frame[of p1 prs cl1 cl r] k1 s1(4) by (simp add: cl0_def)
  have gr: "groupPodsByWorkload cl1 targetPods = groupPodsByWorkload cl targetPods"
    by (rule groupPodsByWorkload_frame) (use s1(4) in \<open>simp add: cl0_def\<close>)
  define p2 where "p2 = p1\<lparr>Status := (Status p1)\<lparr>TargetedPods := int (length targetPods)\<rparr>\<rparr>"
  have o1: "cl_Objects cl1 (prs_Namespace p2, prs_Name p2) = Some (prs\<lparr>Status := Status p1\<rparr>)"
    using t1(2) k1 by (simp add: p2_def)
  obtain e3 p3 cl3 where u3:
    "updatePhase r cl1 p2 PhaseRecommending ''Generating recommendations'' = (e3, p3, cl3)"
    by (metis prod_cases3)
  note s3 = updatePhase_step[OF u3] and t3 = updatePhase_succeeds[OF w o1 u3]
  have e3: "e3 = None" by (rule t3(1))
  have k3: "prs_Namespace p3 = prs_Namespace prs" "prs_Name p3 = prs_Name prs" "Spec p3 = Spec prs"
    using t3(3) k1 by (simp_all add: p2_def)
  define allRecs where
    "allRecs = Reconcile_loop r p3 (go_range r (groupPodsByWorkload cl1 targetPods)) []"
  have ar: "allRecs = ?recs"
    unfolding allRecs_def gr Reconcile_loop_successful
    using successful_recommendations_Spec[OF k3(3)] by simp
  define p4 where "p4 = p3\<lparr>Status := (Status p3)\<lparr>Recommendations := allRecs,
                                    LastAnalysisTime := Some (Now r)\<rparr>\<rparr>"
  have o3: "cl_Objects cl3 (prs_Namespace p4, prs_Name p4)
              = Some (prs\<lparr>Status := Status p1\<rparr>\<lparr>Status := Status p3\<rparr>)"
    using t3(2) k3 k1 o1 by (simp add: p4_def p2_def)
  define msg where "msg = (if DryRun (Spec p4)
     then ''Analysis completed. Found '' @ sprint_int (int (length allRecs))
            @ '' recommendations'' @ '' (dry-run mode)''
     else ''Analysis completed. Found '' @ sprint_int (int (length allRecs))
            @ '' recommendations'')"
  show ?thesis
  proof (cases "DryRun (Spec p4)")
    case dry: True
    obtain e5 p5 cl5 where u5: "updatePhase r cl3 p4 PhaseCompleted msg = (e5, p5, cl5)"
      by (metis prod_cases3)
    note t5 = updatePhase_succeeds[OF w o3 u5]
    have e5: "e5 = None" by (rule t5(1))
    have r2: "cl2 = cl5" "e2 = None"
      using rec g run u1 e1 d small nonempty u3 e3 dry u5 e5
      by (auto simp: Reconcile_def Let_def p2_def p4_def allRecs_def msg_def)
    have st: "cl_Objects cl5 req = Some (prs\<lparr>Status := Status p5\<rparr>)"
      using t5(2) k3 key by (simp add: p4_def)
    have "Phase (Status p5) = PhaseCompleted" "Recommendations (Status p5) = ?recs"
      using t5(4,5) ar by (simp_all add: p4_def)
    then show ?thesis using rec r2 st by simp
  next
    case wet: False
    obtain e4 p4' cl4 where u4:
      "updatePhase r cl3 p4 PhaseUpdating ''Applying recommendations'' = (e4, p4', cl4)"
      by (metis prod_cases3)
    note s4 = updatePhase_step[OF u4] and t4 = updatePhase_succeeds[OF w o3 u4]
    have e4: "e4 = None" by (rule t4(1))
    obtain cnt clA where ap: "applyRecommendations r cl4 p4' allRecs = (cnt, clA)"
      by (cases "applyRecommendations r cl4 p4' allRecs")
    note fa = applyRecommendations_frameD[OF ap]
    have cnt: "\<not> cnt > MaxInt32"
      using applyRecommendations_fits[OF perm, of cl4 p4' allRecs] ap fits ar by simp
    define p5 where "p5 = p4'\<lparr>Status := (Status p4')\<lparr>UpdatedPods := cnt,
                                       LastUpdateTime := Some (Now r)\<rparr>\<rparr>"
    have dr: "DryRun (Spec p5) = DryRun (Spec p4)"
      using s4(1) by (simp add: p5_def)
    have k5: "prs_Namespace p5 = prs_Namespace prs" "prs_Name p5 = prs_Name prs"
      using t4(3) k3 by (simp_all add: p5_def p4_def)
    have oA: "cl_Objects clA (prs_Namespace p5, prs_Name p5)
                = Some (prs\<lparr>Status := Status p1\<rparr>\<lparr>Status := Status p3\<rparr>\<lparr>Status := Status p4'\<rparr>)"
      using fa t4(2) k5 k3 by (simp add: p4_def)
    have wA: "StatusUpdateFault r (cl_StatusWrites clA) = None" by (rule w)
    obtain e6 p6 cl6 where u6: "updatePhase r clA p5 PhaseCompleted msg = (e6, p6, cl6)"
      by (metis prod_cases3)
    note t6 = updatePhase_succeeds[OF wA oA u6]
    have e6: "e6 = None" by (rule t6(1))
    have r2: "cl2 = cl6" "e2 = None"
      using rec g run u1 e1 d small nonempty u3 e3 wet u4 e4 ap cnt u6 e6 dr
      by (auto simp: Reconcile_def Let_def p2_def p4_def p5_def allRecs_def msg_def)
    have st: "cl_Objects cl6 req = Some (prs\<lparr>Status := Status p6\<rparr>)"
      using t6(2) k5 key by simp
    have "Recommendations (Status p4') = allRecs"
      using t4(5) by (simp add: p4_def)
    then have "Phase (Status p6) = PhaseCompleted" "Recommendations (Status p6) = ?recs"
      using t6(4,5) ar by (simp_all add: p5_def)
    then show ?thesis using rec r2 st by simp
  qed
qed

text \<open>
  C6. Take a pass in which the cluster API does not fail: the configuration object is
  fetched, the analysis is due, every status write is accepted, discovery finds at least
  one pod, and the counts fit 32 bits. If generating the recommendations of one workload
  group fails, whether in the metrics provider or in the engine, the pass still ends
  without error, the stored status has phase \<^const>\<open>PhaseCompleted\<close>, and its
  recommendations are exactly those of the groups visited before and after the failing
  one, in the order of the visit.
\<close>

theorem workload_failure_is_isolated:
  assumes get: "GetFault r = None"
    and obj: "cl_Objects cl req = Some prs"
    and key: "req = (prs_Namespace prs, prs_Name prs)"
    and run: "shouldRunAnalysis r prs"
    and writes: "\<forall>n. StatusUpdateFault r n = None"
    and perm: "\<forall>ks. mset (MapOrder r ks) = mset ks"
    and disc: "discoverTargetPods r cl prs = Inr targetPods"
    and nonempty: "targetPods \<noteq> []"
    and small: "int (length targetPods) \<le> MaxInt32"
    and order: "go_range r (groupPodsByWorkload cl targetPods) = gs1 @ (workload, pods) # gs2"
    and fail: "generateWorkloadRecommendations r prs workload pods = Inl err"
    and fits: "int (length (successful_recommendations r prs (gs1 @ gs2))) \<le> MaxInt32"
  shows "\<exists>delay cl'. Reconcile r cl req = ((delay, None), cl') \<and>
           (\<exists>stored. cl_Objects cl' req = Some stored \<and>
              Phase (Status stored) = PhaseCompleted \<and>
              Recommendations (Status stored) = successful_recommendations r prs (gs1 @ gs2))"
proof -
  have skip: "successful_recommendations r prs (go_range r (groupPodsByWorkload cl targetPods))
                = successful_recommendations r prs (gs1 @ gs2)"
    unfolding order successful_recommendations_skip[OF fail]
    by (simp add: successful_recommendations_def)
  show ?thesis
    using Reconcile_completes[OF get obj key run writes perm disc nonempty small] fits
    unfolding skip by simp
qed

lemma steady_pod_emitted:
  "\<exists>rec. generatePodRecommendation NewRecommendationEngine steady_pod zero_thresholds
           = Inr (Some rec)"
proof -
  note s = steady_pod_analysis
  have t: "DefaultConfidenceThreshold NewRecommendationEngine = 70"
    by (simp add: NewRecommendationEngine_def)
  have "\<exists>rec. generatePodRecommendation NewRecommendationEngine steady_pod zero_thresholds
            = Inr (Some rec) \<and> Confidence rec = 100"
    using generatePodRecommendation_cases[OF Inr_projr[OF s(1)] Inr_projr[OF s(3)]]
    by (simp add: s(2) s(4) t)
  then show ?thesis by blast
qed

lemma two_workloads_pass:
  "GetFault (reconciler_with (\<lambda>n. None)) = None"
  "cl_Objects (cluster_with (policy_for default_namespace_target False) [app_pod, web_pod]) (''default'', ''policy'') = Some (policy_for default_namespace_target False)"
  "(''default'', ''policy'') = (prs_Namespace (policy_for default_namespace_target False), prs_Name (policy_for default_namespace_target False))"
  "shouldRunAnalysis (reconciler_with (\<lambda>n. None)) (policy_for default_namespace_target False)"
  "\<forall>n. StatusUpdateFault (reconciler_with (\<lambda>n. None)) n = None"
  "\<forall>ks. mset (MapOrder (reconciler_with (\<lambda>n. None)) ks) = mset ks"
  by (simp_all add: reconciler_with_def cluster_with_def policy_for_def shouldRunAnalysis_def)

lemma two_workloads_discovered:
  "discoverTargetPods (reconciler_with (\<lambda>n. None)) (cluster_with (policy_for default_namespace_target False) [app_pod, web_pod]) (policy_for default_namespace_target False) = Inr [app_pod, web_pod]"
proof -
  have inc: "shouldIncludePod app_pod (policy_for default_namespace_target False)" "shouldIncludePod web_pod (policy_for default_namespace_target False)"
    by (simp_all add: shouldIncludePod_def app_pod_def web_pod_def pod_of_def policy_for_def
        default_namespace_target_def)
  have ns: "pod_Namespace app_pod = ''default''" "pod_Namespace web_pod = ''default''"
    by (simp_all add: app_pod_def web_pod_def pod_of_def)
  have t: "Target (Spec (policy_for tg d)) = tg" for tg d
    by (simp add: policy_for_def)
  have lp: "ListPods (reconciler_with (\<lambda>n. None)) (cluster_with (policy_for default_namespace_target False) [app_pod, web_pod]) (\<lambda>labels. True) (Some ''default'') = Inr [app_pod, web_pod]"
    by (simp add: ListPods_def reconciler_with_def cluster_with_def ns)
  have g: "LabelSelector default_namespace_target = None"
    "NamespaceSelector default_namespace_target = None"
    "target_Namespace default_namespace_target = ''default''"
    "ExcludeNamespaces default_namespace_target = [''kube-system'']"
    by (simp_all add: default_namespace_target_def)
  show ?thesis
    unfolding discoverTargetPods_def t
    by (simp add: g t lp inc)
qed

lemma two_workloads_grouped:
  "go_range (reconciler_with (\<lambda>n. None)) (groupPodsByWorkload (cluster_with (policy_for default_namespace_target False) [app_pod, web_pod]) [app_pod, web_pod])
     = [] @ (''default/StatefulSet/db'', [app_pod]) # [(''default/StatefulSet/web'', [web_pod])]"
proof -
  have k: "getWorkloadName c app_pod = ''db''" "getWorkloadType app_pod = ''StatefulSet''"
    "getWorkloadName c web_pod = ''web''" "getWorkloadType web_pod = ''StatefulSet''"
    "pod_Namespace app_pod = ''default''" "pod_Namespace web_pod = ''default''" for c
    by (simp_all add: getWorkloadName_def getWorkloadType_def app_pod_def web_pod_def pod_of_def)
  have g: "groupPodsByWorkload c [app_pod, web_pod]
      = [(''default/StatefulSet/db'', [app_pod]), (''default/StatefulSet/web'', [web_pod])]" for c
    by (simp add: groupPodsByWorkload_def Let_def k workloadKey_def map_append_def)
  have m: "MapOrder (reconciler_with (\<lambda>n. None)) = (\<lambda>keys. keys)" by (simp add: reconciler_with_def)
  show ?thesis
    unfolding g go_range_def m by (simp add: map_filter_simps)
qed

lemma split_workload_keys:
  "splitWorkloadKey ''default/StatefulSet/db'' = [''default'', ''StatefulSet'', ''db'']"
  "splitWorkloadKey ''default/StatefulSet/web'' = [''default'', ''StatefulSet'', ''web'']"
  by (simp_all add: splitWorkloadKey_def eval_nat_numeral)

lemma two_workloads_metrics:
  "generateWorkloadRecommendations (reconciler_with (\<lambda>n. None)) (policy_for default_namespace_target False) ''default/StatefulSet/db'' [app_pod]
     = Inl (ApiError ''metrics unavailable'')"
  "\<exists>rec. generateWorkloadRecommendations (reconciler_with (\<lambda>n. None)) (policy_for default_namespace_target False) ''default/StatefulSet/web'' [web_pod] = Inr [rec]"
proof -
  have f: "GetWorkloadMetrics (reconciler_with (\<lambda>n. None)) = web_only_metrics" "RecommendEngine (reconciler_with (\<lambda>n. None)) = NewRecommendationEngine"
    "Thresholds (Spec (policy_for default_namespace_target False)) = zero_thresholds"
    by (simp_all add: reconciler_with_def policy_for_def)
  show "generateWorkloadRecommendations (reconciler_with (\<lambda>n. None)) (policy_for default_namespace_target False) ''default/StatefulSet/db'' [app_pod]
     = Inl (ApiError ''metrics unavailable'')"
    by (simp add: generateWorkloadRecommendations_def split_workload_keys Let_def f
        web_only_metrics_def)
  obtain rec where e: "generatePodRecommendation NewRecommendationEngine steady_pod zero_thresholds
           = Inr (Some rec)"
    using steady_pod_emitted by blast
  have "GenerateRecommendations NewRecommendationEngine (workload_of [steady_pod]) zero_thresholds
          = Inr [rec]"
    by (simp add: GenerateRecommendations_def workload_of_def e)
  then show "\<exists>rec. generateWorkloadRecommendations (reconciler_with (\<lambda>n. None)) (policy_for default_namespace_target False) ''default/StatefulSet/web'' [web_pod] = Inr [rec]"
    by (simp add: generateWorkloadRecommendations_def split_workload_keys Let_def f
        web_only_metrics_def workload_of_def)
qed

lemma two_workloads_successful:
  "length (successful_recommendations (reconciler_with (\<lambda>n. None)) (policy_for default_namespace_target False) ([] @ [(''default/StatefulSet/web'', [web_pod])])) = 1"
  using two_workloads_metrics(2) by (auto simp: successful_recommendations_def)

theorem workload_failure_is_isolated_witness:
  "GetFault (reconciler_with (\<lambda>n. None)) = None \<and>
   cl_Objects (cluster_with (policy_for default_namespace_target False) [app_pod, web_pod]) (''default'', ''policy'') = Some (policy_for default_namespace_target False) \<and>
   shouldRunAnalysis (reconciler_with (\<lambda>n. None)) (policy_for default_namespace_target False) \<and>
   (\<forall>n. StatusUpdateFault (reconciler_with (\<lambda>n. None)) n = None) \<and>
   (\<forall>ks. mset (MapOrder (reconciler_with (\<lambda>n. None)) ks) = mset ks) \<and>
   discoverTargetPods (reconciler_with (\<lambda>n. None)) (cluster_with (policy_for default_namespace_target False) [app_pod, web_pod]) (policy_for default_namespace_target False) = Inr [app_pod, web_pod] \<and>
   go_range (reconciler_with (\<lambda>n. None)) (groupPodsByWorkload (cluster_with (policy_for default_namespace_target False) [app_pod, web_pod]) [app_pod, web_pod])
     = [] @ (''default/StatefulSet/db'', [app_pod]) # [(''default/StatefulSet/web'', [web_pod])] \<and>
   generateWorkloadRecommendations (reconciler_with (\<lambda>n. None)) (policy_for default_namespace_target False) ''default/StatefulSet/db'' [app_pod]
     = Inl (ApiError ''metrics unavailable'') \<and>
   length (successful_recommendations (reconciler_with (\<lambda>n. None)) (policy_for default_namespace_target False) ([] @ [(''default/StatefulSet/web'', [web_pod])])) = 1 \<and>
   (\<exists>delay cl'. Reconcile (reconciler_with (\<lambda>n. None)) (cluster_with (policy_for default_namespace_target False) [app_pod, web_pod]) (''default'', ''policy'') = ((delay, None), cl') \<and>
      (\<exists>stored. cl_Objects cl' (''default'', ''policy'') = Some stored \<and>
         Phase (Status stored) = PhaseCompleted \<and>
         Recommendations (Status stored)
           = successful_recommendations (reconciler_with (\<lambda>n. None)) (policy_for default_namespace_target False) ([] @ [(''default/StatefulSet/web'', [web_pod])])))"
proof -
  note h = two_workloads_pass
  have small: "[app_pod, web_pod] \<noteq> []" "int (length [app_pod, web_pod]) \<le> MaxInt32"
    by (simp_all add: MaxInt32_def)
  have fits: "int (length (successful_recommendations (reconciler_with (\<lambda>n. None)) (policy_for default_namespace_target False)
                 ([] @ [(''default/StatefulSet/web'', [web_pod])]))) \<le> MaxInt32"
    unfolding two_workloads_successful by (simp add: MaxInt32_def)
  note c = workload_failure_is_isolated[OF h(1) h(2) h(3) h(4) h(5) h(6) two_workloads_discovered
      small two_workloads_grouped two_workloads_metrics(1) fits]
  show ?thesis
    by (intro conjI h(1) h(2) h(4) h(5) h(6) two_workloads_discovered two_workloads_grouped
        two_workloads_metrics(1) two_workloads_successful c)
qed


end
